theory Spec2Isabelle
  imports Main "HOL-Library.Word"
begin

unbundle bit_operations_syntax

section \<open>Token editor: data model (token\_editor.h)\<close>

text \<open>
  Conventions of the embedding.
  \<^item> \<open>te_token_t\<close> is a 32-bit word: tokens are only copied and compared.
  \<^item> \<open>te_pos_t\<close> and \<open>te_seq_id_t\<close> (both \<open>int32_t\<close>) are \<open>int\<close>, \<open>size_t\<close> is \<open>nat\<close>.
    A cast \<open>(size_t)p\<close> of a negative position yields a value above every token count,
    so \<open>(size_t)p > n\<close> is written \<open>p < 0 \<or> nat p > n\<close> and \<open>(size_t)p >= n\<close> is written
    \<open>p < 0 \<or> nat p \<ge> n\<close>. Token counts are taken to fit \<open>te_pos_t\<close>.
  \<^item> The arrays \<open>tokens\<close> and \<open>token_info\<close> are memory images \<open>nat \<Rightarrow> 'a\<close>; the cells at
    and above \<open>n_tokens\<close> hold whatever earlier operations left there. \<open>capacity\<close> is the
    allocated size. \<open>malloc\<close>, \<open>calloc\<close> and \<open>realloc\<close> are taken to succeed.
  \<^item> A C pointer to a token array that may be \<open>NULL\<close> is a \<open>te_token_t list option\<close>,
    passed together with its element count as in the C signatures.
  \<^item> The singly linked \<open>history\<close> (with its \<open>history_tail\<close> pointer) is the list of its
    nodes, oldest first; \<open>redo_stack\<close> is the list of its nodes, top first.
  \<^item> The editor handle is never \<open>NULL\<close>: the \<open>TE_ERROR_INVALID_CONTEXT\<close> returns of the
    \<open>if (!ctx)\<close> guards are outside the model. The callbacks \<open>on_token_change\<close> and
    \<open>on_range_change\<close> only observe and are left out, as are the float fields
    \<open>logit\<close> and \<open>prob\<close> of \<open>te_token_info_t\<close>, which no modelled operation writes.
\<close>

type_synonym te_pos_t = int
type_synonym te_token_t = "32 word"
type_synonym te_seq_id_t = int

datatype te_error_t =
    TE_OK
  | TE_ERROR_INVALID_CONTEXT
  | TE_ERROR_INVALID_POSITION
  | TE_ERROR_INVALID_TOKEN
  | TE_ERROR_BUFFER_TOO_SMALL
  | TE_ERROR_KV_CACHE_FULL
  | TE_ERROR_SEQUENCE_NOT_FOUND
  | TE_ERROR_ALLOCATION_FAILED
  | TE_ERROR_READONLY

record te_token_info_t =
  ti_id :: te_token_t
  ti_pos :: te_pos_t
  ti_seq_id :: te_seq_id_t
  ti_has_logit :: bool
  ti_flags :: "32 word"

definition TE_FLAG_BOS :: "32 word" where "TE_FLAG_BOS = push_bit 0 1"
definition TE_FLAG_EOS :: "32 word" where "TE_FLAG_EOS = push_bit 1 1"
definition TE_FLAG_SPECIAL :: "32 word" where "TE_FLAG_SPECIAL = push_bit 2 1"
definition TE_FLAG_CONTROL :: "32 word" where "TE_FLAG_CONTROL = push_bit 3 1"
definition TE_FLAG_USER_DATA :: "32 word" where "TE_FLAG_USER_DATA = push_bit 4 1"
definition TE_FLAG_GENERATED :: "32 word" where "TE_FLAG_GENERATED = push_bit 5 1"

record te_range_t =
  r_start :: te_pos_t
  r_end :: te_pos_t
  r_seq_id :: te_seq_id_t

datatype te_op_type_t =
    TE_OP_INSERT
  | TE_OP_DELETE
  | TE_OP_REPLACE
  | TE_OP_MOVE
  | TE_OP_COPY
  | TE_OP_SWAP

record te_edit_op_t =
  op_type :: te_op_type_t
  op_source :: te_range_t
  op_dest :: te_range_t
  op_tokens :: "te_token_t list option"
  op_n_tokens :: nat

text \<open>
  The vocabulary queries of the model that \<open>te_get_token_flags\<close> uses
  (\<open>llama_token_is_eog\<close>, \<open>llama_token_bos\<close> and the two attribute bits tested on
  \<open>llama_token_get_attr\<close>): the external runtime, a parameter of the editor.
\<close>

record llama_model =
  token_is_eog :: "te_token_t \<Rightarrow> bool"
  token_bos :: te_token_t
  token_attr_control :: "te_token_t \<Rightarrow> bool"
  token_attr_special :: "te_token_t \<Rightarrow> bool"

record 'k te_context_t =
  llama_ctx :: 'k
  llama_model :: llama_model
  tokens :: "nat \<Rightarrow> te_token_t"
  token_info :: "nat \<Rightarrow> te_token_info_t"
  n_tokens :: nat
  capacity :: nat
  history :: "te_edit_op_t list"
  redo_stack :: "te_edit_op_t list"
  history_limit :: nat
  active_sequences :: "te_seq_id_t list"
  readonly :: bool
  kv_cache_dirty :: bool
  logits_valid :: bool
  suppress_history :: bool

definition TE_DEFAULT_CAPACITY :: nat where "TE_DEFAULT_CAPACITY = 4096"
definition TE_HISTORY_DEFAULT_LIMIT :: nat where "TE_HISTORY_DEFAULT_LIMIT = 100"

section \<open>Token editor: internal helpers\<close>

text \<open>\<open>memmove(a + dst, a + src, n * sizeof *a)\<close> on a memory image.\<close>

definition memmove :: "(nat \<Rightarrow> 'a) \<Rightarrow> nat \<Rightarrow> nat \<Rightarrow> nat \<Rightarrow> (nat \<Rightarrow> 'a)" where
  "memmove a dst src n = (\<lambda>i. if dst \<le> i \<and> i < dst + n then a (src + (i - dst)) else a i)"

text \<open>\<open>memcpy(a + dst, xs, n * sizeof *a)\<close> from a caller's array.\<close>

definition memcpy :: "(nat \<Rightarrow> 'a) \<Rightarrow> nat \<Rightarrow> 'a list \<Rightarrow> nat \<Rightarrow> (nat \<Rightarrow> 'a)" where
  "memcpy a dst xs n = (\<lambda>i. if dst \<le> i \<and> i < dst + n then xs ! (i - dst) else a i)"

text \<open>The cells \<open>a[lo..hi)\<close> of a memory image, as a list.\<close>

definition cells :: "(nat \<Rightarrow> 'a) \<Rightarrow> nat \<Rightarrow> nat \<Rightarrow> 'a list" where
  "cells a lo hi = map a [lo..<hi]"

text \<open>
  The doubling loop of \<open>te_ensure_capacity\<close>:
  \<open>while (new_capacity < required) new_capacity *= 2;\<close>. It does not end when the
  capacity is 0, which is the value \<open>None\<close>.
\<close>

partial_function (option) te_double_capacity :: "nat \<Rightarrow> nat \<Rightarrow> nat option" where
  "te_double_capacity new_capacity required =
     (if new_capacity < required then te_double_capacity (new_capacity * 2) required
      else Some new_capacity)"

definition te_ensure_capacity :: "'k te_context_t \<Rightarrow> nat \<Rightarrow> 'k te_context_t option" where
  "te_ensure_capacity ctx required =
     (if required \<le> capacity ctx then Some ctx
      else case te_double_capacity (capacity ctx * 2) required of
             None \<Rightarrow> None
           | Some new_capacity \<Rightarrow> Some (ctx\<lparr>capacity := new_capacity\<rparr>))"

text \<open>The trimming loop of \<open>te_record_edit\<close>: drop the oldest node while \<open>count > limit\<close>.\<close>

fun te_trim_history :: "nat \<Rightarrow> nat \<Rightarrow> te_edit_op_t list \<Rightarrow> te_edit_op_t list" where
  "te_trim_history count limit [] = []"
| "te_trim_history count limit (old # rest) =
     (if count > limit then te_trim_history (count - 1) limit rest else old # rest)"

text \<open>
  The node \<open>te_record_edit\<close> allocates and fills: the payload is copied when the pointer
  is not \<open>NULL\<close> and the count is positive, and is \<open>NULL\<close> otherwise.
\<close>

definition te_make_edit_op ::
  "te_op_type_t \<Rightarrow> te_range_t \<Rightarrow> te_range_t \<Rightarrow> te_token_t list option \<Rightarrow> nat \<Rightarrow> te_edit_op_t" where
  "te_make_edit_op type source dest toks n =
     \<lparr>op_type = type, op_source = source, op_dest = dest,
      op_tokens = (case toks of
                     None \<Rightarrow> None
                   | Some ts \<Rightarrow> if n > 0 then Some (take n ts) else None),
      op_n_tokens = n\<rparr>"

definition te_record_edit ::
  "'k te_context_t \<Rightarrow> te_op_type_t \<Rightarrow> te_range_t \<Rightarrow> te_range_t \<Rightarrow>
   te_token_t list option \<Rightarrow> nat \<Rightarrow> 'k te_context_t" where
  "te_record_edit ctx type source dest toks n =
     (if suppress_history ctx then ctx
      else
        let op = te_make_edit_op type source dest toks n;
            h = history ctx @ [op];
            h' = (if history_limit ctx > 0
                  then te_trim_history (length h) (history_limit ctx) h
                  else h)
        in ctx\<lparr>history := h', redo_stack := []\<rparr>)"

definition te_get_token_flags :: "'k te_context_t \<Rightarrow> te_token_t \<Rightarrow> 32 word" where
  "te_get_token_flags ctx token =
     (let m = llama_model ctx;
          f0 = (0 :: 32 word);
          f1 = (if token_is_eog m token then f0 OR TE_FLAG_EOS else f0);
          f2 = (if token = token_bos m then f1 OR TE_FLAG_BOS else f1);
          f3 = (if token_attr_control m token then f2 OR TE_FLAG_CONTROL else f2);
          f4 = (if token_attr_special m token then f3 OR TE_FLAG_SPECIAL else f3)
      in f4)"

section \<open>Token editor: inspection\<close>

definition te_get_token :: "'k te_context_t \<Rightarrow> te_pos_t \<Rightarrow> te_seq_id_t \<Rightarrow> te_token_t" where
  "te_get_token ctx pos seq_id =
     (if pos < 0 \<or> nat pos \<ge> n_tokens ctx then - 1 else tokens ctx (nat pos))"


text \<open>
  The clamping that \<open>te_get_tokens\<close>, \<open>te_delete_tokens\<close> and \<open>te_replace_tokens\<close> each
  perform on their range argument:
  \<open>if (start < 0) start = 0; if ((size_t)end > ctx->n_tokens) end = ctx->n_tokens;\<close>.
  A negative \<open>end\<close> is above \<open>n_tokens\<close> after the cast, and so becomes \<open>n_tokens\<close>.
\<close>

definition te_clamp_range :: "'k te_context_t \<Rightarrow> te_range_t \<Rightarrow> te_range_t" where
  "te_clamp_range ctx rg =
     \<lparr>r_start = (if r_start rg < 0 then 0 else r_start rg),
      r_end = (if r_end rg < 0 \<or> nat (r_end rg) > n_tokens ctx
               then int (n_tokens ctx) else r_end rg),
      r_seq_id = r_seq_id rg\<rparr>"

definition te_get_tokens ::
  "'k te_context_t \<Rightarrow> te_range_t \<Rightarrow> nat \<Rightarrow> te_error_t \<times> te_token_t list \<times> nat" where
  \<comment> \<open>the caller's \<open>out\<close> array has \<open>*n_out\<close> cells; the result carries the tokens written
      to it and the new \<open>*n_out\<close>\<close>
  "te_get_tokens ctx rg n_out =
     (let start = r_start (te_clamp_range ctx rg);
          end = r_end (te_clamp_range ctx rg)
      in if start \<ge> end then (TE_OK, [], 0)
         else
           let count = nat (end - start)
           in if count > n_out then (TE_ERROR_BUFFER_TOO_SMALL, [], n_out)
              else (TE_OK, cells (tokens ctx) (nat start) (nat start + count), count))"

definition te_get_token_count :: "'k te_context_t \<Rightarrow> te_seq_id_t \<Rightarrow> nat" where
  "te_get_token_count ctx seq_id = n_tokens ctx"

definition te_get_history_count :: "'k te_context_t \<Rightarrow> nat" where
  "te_get_history_count ctx = length (history ctx)"

section \<open>Token editor: modification\<close>

text \<open>
  The metadata loop shared by \<open>te_insert_tokens\<close> and \<open>te_replace_tokens\<close>:
  for \<open>i < n\<close>, stamp \<open>token_info[p + i]\<close> with the new token.
\<close>

definition te_stamp_info ::
  "'k te_context_t \<Rightarrow> (nat \<Rightarrow> te_token_info_t) \<Rightarrow> nat \<Rightarrow> te_seq_id_t \<Rightarrow> te_token_t list \<Rightarrow> nat
   \<Rightarrow> (nat \<Rightarrow> te_token_info_t)" where
  "te_stamp_info ctx info p seq_id ts n =
     (\<lambda>j. if p \<le> j \<and> j < p + n
           then (info j)\<lparr>ti_id := ts ! (j - p), ti_pos := int j,
                         ti_seq_id := (if seq_id \<ge> 0 then seq_id else 0),
                         ti_has_logit := False,
                         ti_flags := te_get_token_flags ctx (ts ! (j - p)) OR TE_FLAG_USER_DATA\<rparr>
           else info j)"

definition te_set_token ::
  "'k te_context_t \<Rightarrow> te_pos_t \<Rightarrow> te_seq_id_t \<Rightarrow> te_token_t \<Rightarrow> te_error_t \<times> 'k te_context_t" where
  "te_set_token ctx pos seq_id token =
     (if readonly ctx then (TE_ERROR_READONLY, ctx)
      else if pos < 0 \<or> nat pos \<ge> n_tokens ctx then (TE_ERROR_INVALID_POSITION, ctx)
      else
        let old_token = tokens ctx (nat pos);
            rg = \<lparr>r_start = pos, r_end = pos + 1, r_seq_id = seq_id\<rparr>;
            c1 = te_record_edit ctx TE_OP_REPLACE rg rg (Some [old_token]) 1
        in (TE_OK,
            c1\<lparr>tokens := (tokens c1)(nat pos := token),
               token_info := (token_info c1)
                 (nat pos := (token_info c1 (nat pos))
                    \<lparr>ti_id := token, ti_has_logit := False,
                     ti_flags := te_get_token_flags c1 token\<rparr>),
               kv_cache_dirty := True, logits_valid := False\<rparr>))"

text \<open>
  The paired \<open>memmove\<close> calls on \<open>tokens\<close> and \<open>token_info\<close> that shift the tail, and the
  \<open>memcpy\<close> of the new tokens followed by the metadata loop.
\<close>

definition te_shift :: "'k te_context_t \<Rightarrow> nat \<Rightarrow> nat \<Rightarrow> nat \<Rightarrow> 'k te_context_t" where
  "te_shift ctx dst src n =
     ctx\<lparr>tokens := memmove (tokens ctx) dst src n,
         token_info := memmove (token_info ctx) dst src n\<rparr>"

definition te_store :: "'k te_context_t \<Rightarrow> nat \<Rightarrow> te_seq_id_t \<Rightarrow> te_token_t list \<Rightarrow> nat
   \<Rightarrow> 'k te_context_t" where
  "te_store ctx p seq_id ts n =
     ctx\<lparr>tokens := memcpy (tokens ctx) p ts n,
         token_info := te_stamp_info ctx (token_info ctx) p seq_id ts n\<rparr>"

definition te_insert_tokens ::
  "'k te_context_t \<Rightarrow> te_pos_t \<Rightarrow> te_seq_id_t \<Rightarrow> te_token_t list option \<Rightarrow> nat
   \<Rightarrow> (te_error_t \<times> 'k te_context_t) option" where
  "te_insert_tokens ctx pos seq_id toks n =
     (if readonly ctx then Some (TE_ERROR_READONLY, ctx)
      else if pos < 0 \<or> nat pos > n_tokens ctx then Some (TE_ERROR_INVALID_POSITION, ctx)
      else case toks of
        None \<Rightarrow> Some (TE_OK, ctx)
      | Some ts \<Rightarrow>
          if n = 0 then Some (TE_OK, ctx)
          else case te_ensure_capacity ctx (n_tokens ctx + n) of
            None \<Rightarrow> None
          | Some c1 \<Rightarrow>
              let p = nat pos;
                  c2 = (if p < n_tokens c1 then te_shift c1 (p + n) p (n_tokens c1 - p) else c1);
                  c3 = te_store c2 p seq_id ts n;
                  c4 = c3\<lparr>n_tokens := n_tokens c3 + n,
                          kv_cache_dirty := True, logits_valid := False\<rparr>;
                  rg = \<lparr>r_start = pos, r_end = pos + int n, r_seq_id = seq_id\<rparr>
              in Some (TE_OK, te_record_edit c4 TE_OP_INSERT rg rg (Some ts) n))"

definition te_delete_tokens ::
  "'k te_context_t \<Rightarrow> te_range_t \<Rightarrow> te_error_t \<times> 'k te_context_t" where
  "te_delete_tokens ctx rg =
     (if readonly ctx then (TE_ERROR_READONLY, ctx)
      else
        let start = r_start (te_clamp_range ctx rg);
            end = r_end (te_clamp_range ctx rg)
        in if start \<ge> end then (TE_OK, ctx)
           else
             let count = nat (end - start);
                 saved = cells (tokens ctx) (nat start) (nat start + count);
                 save_range = \<lparr>r_start = start, r_end = end, r_seq_id = r_seq_id rg\<rparr>;
                 c1 = te_record_edit ctx TE_OP_DELETE save_range save_range (Some saved) count;
                 c2 = (if nat end < n_tokens c1
                       then te_shift c1 (nat start) (nat end) (n_tokens c1 - nat end)
                       else c1)
             in (TE_OK, c2\<lparr>n_tokens := n_tokens c2 - count,
                           kv_cache_dirty := True, logits_valid := False\<rparr>))"

definition te_replace_tokens ::
  "'k te_context_t \<Rightarrow> te_range_t \<Rightarrow> te_token_t list option \<Rightarrow> nat
   \<Rightarrow> (te_error_t \<times> 'k te_context_t) option" where
  "te_replace_tokens ctx rg toks n =
     (if readonly ctx then Some (TE_ERROR_READONLY, ctx)
      else
        let start = r_start (te_clamp_range ctx rg);
            end = r_end (te_clamp_range ctx rg);
            old_count = (if start < end then nat (end - start) else 0);
            new_count = n;
            saved = (if old_count > 0
                     then Some (cells (tokens ctx) (nat start) (nat start + old_count))
                     else None);
            new_total = n_tokens ctx - old_count + new_count
        in case te_ensure_capacity ctx new_total of
             None \<Rightarrow> None
           | Some c1 \<Rightarrow>
               let c2 = (if new_count \<noteq> old_count \<and> nat end < n_tokens c1
                         then te_shift c1 (nat start + new_count) (nat end) (n_tokens c1 - nat end)
                         else c1);
                   c3 = (case toks of
                           None \<Rightarrow> c2
                         | Some ts \<Rightarrow>
                             if n > 0 then te_store c2 (nat start) (r_seq_id rg) ts n else c2);
                   c4 = c3\<lparr>n_tokens := new_total,
                           kv_cache_dirty := True, logits_valid := False\<rparr>;
                   save_range = \<lparr>r_start = start, r_end = end, r_seq_id = r_seq_id rg\<rparr>
               in Some (TE_OK,
                        (case saved of
                           None \<Rightarrow> c4
                         | Some sv \<Rightarrow>
                             te_record_edit c4 TE_OP_REPLACE save_range save_range (Some sv)
                               old_count)))"

definition te_clear :: "'k te_context_t \<Rightarrow> te_seq_id_t \<Rightarrow> te_error_t \<times> 'k te_context_t" where
  "te_clear ctx seq_id =
     (if readonly ctx then (TE_ERROR_READONLY, ctx)
      else
        let c1 = (if n_tokens ctx > 0
                  then
                    let rg = \<lparr>r_start = 0, r_end = int (n_tokens ctx), r_seq_id = seq_id\<rparr>
                    in te_record_edit ctx TE_OP_DELETE rg rg
                         (Some (cells (tokens ctx) 0 (n_tokens ctx))) (n_tokens ctx)
                  else ctx)
        in (TE_OK, c1\<lparr>n_tokens := 0, kv_cache_dirty := True, logits_valid := False\<rparr>))"

section \<open>Token editor: undo and redo\<close>

text \<open>
  \<open>te_undo\<close> detaches the last node of \<open>history\<close>, replays its inverse with recording
  suppressed (the result codes of the replayed mutators are ignored), and pushes the node
  on \<open>redo_stack\<close>. \<open>te_redo\<close> pops \<open>redo_stack\<close>, replays, and appends to \<open>history\<close>.
  The result is \<open>None\<close> when a replayed mutator does not return.
\<close>

definition te_undo :: "'k te_context_t \<Rightarrow> (te_error_t \<times> 'k te_context_t) option" where
  "te_undo ctx =
     (if history ctx = [] then Some (TE_OK, ctx)
      else
        let op = last (history ctx);
            c1 = ctx\<lparr>history := butlast (history ctx)\<rparr>;
            was_suppress = suppress_history c1;
            c2 = c1\<lparr>suppress_history := True\<rparr>;
            replayed =
              (case op_type op of
                 TE_OP_INSERT \<Rightarrow> Some (snd (te_delete_tokens c2 (op_source op)))
               | TE_OP_DELETE \<Rightarrow>
                   map_option snd
                     (te_insert_tokens c2 (r_start (op_source op)) (r_seq_id (op_source op))
                        (op_tokens op) (op_n_tokens op))
               | TE_OP_REPLACE \<Rightarrow>
                   map_option snd (te_replace_tokens c2 (op_dest op) (op_tokens op) (op_n_tokens op))
               | _ \<Rightarrow> Some c2)
        in case replayed of
             None \<Rightarrow> None
           | Some c3 \<Rightarrow>
               Some (TE_OK,
                     c3\<lparr>suppress_history := was_suppress,
                        redo_stack := op # redo_stack c3,
                        kv_cache_dirty := True, logits_valid := False\<rparr>))"

definition te_redo :: "'k te_context_t \<Rightarrow> (te_error_t \<times> 'k te_context_t) option" where
  "te_redo ctx =
     (case redo_stack ctx of
        [] \<Rightarrow> Some (TE_OK, ctx)
      | op # rest \<Rightarrow>
          let c1 = ctx\<lparr>redo_stack := rest\<rparr>;
              was_suppress = suppress_history c1;
              c2 = c1\<lparr>suppress_history := True\<rparr>;
              replayed =
                (case op_type op of
                   TE_OP_INSERT \<Rightarrow>
                     map_option snd
                       (te_insert_tokens c2 (r_start (op_source op)) (r_seq_id (op_source op))
                          (op_tokens op) (op_n_tokens op))
                 | TE_OP_DELETE \<Rightarrow> Some (snd (te_delete_tokens c2 (op_source op)))
                 | TE_OP_REPLACE \<Rightarrow>
                     map_option snd
                       (te_replace_tokens c2 (op_source op) (op_tokens op) (op_n_tokens op))
                 | _ \<Rightarrow> Some c2)
          in case replayed of
               None \<Rightarrow> None
             | Some c3 \<Rightarrow>
                 Some (TE_OK,
                       c3\<lparr>suppress_history := was_suppress,
                          history := history c3 @ [op],
                          kv_cache_dirty := True, logits_valid := False\<rparr>))"

section \<open>Token editor: cache coordination\<close>

text \<open>
  The calls into the inference runtime, a parameter of the model. \<open>'k\<close> is the state
  behind a \<open>struct llama_context *\<close>; \<open>llama_decode\<close> returns its result code and the
  new state; \<open>llama_copy_state_data\<close> yields the \<open>llama_get_state_size\<close> bytes of the
  serialised state; \<open>llama_new_context_with_model\<close> yields \<open>None\<close> for \<open>NULL\<close>.
\<close>

record llama_batch_entry =
  b_token :: te_token_t
  b_pos :: int
  b_n_seq_id :: int
  b_seq_id :: "int list"
  b_logits :: bool

record llama_context_params =
  cp_n_ctx :: "32 word"
  cp_n_batch :: "32 word"
  cp_n_threads :: "32 word"
  cp_n_threads_batch :: "32 word"

record 'k llama_api =
  llama_kv_cache_clear :: "'k \<Rightarrow> 'k"
  llama_decode :: "'k \<Rightarrow> llama_batch_entry list \<Rightarrow> int \<times> 'k"
  llama_copy_state_data :: "'k \<Rightarrow> 8 word list"
  llama_set_state_data :: "'k \<Rightarrow> 8 word list \<Rightarrow> 'k"
  llama_new_context_with_model :: "llama_context_params \<Rightarrow> 'k option"

definition te_sync_batch :: "'k te_context_t \<Rightarrow> llama_batch_entry list" where
  "te_sync_batch ctx =
     map (\<lambda>i. \<lparr>b_token = tokens ctx i, b_pos = int i, b_n_seq_id = 1, b_seq_id = [0],
               b_logits = (i = n_tokens ctx - 1)\<rparr>) [0..<n_tokens ctx]"

definition te_sync_kv_cache ::
  "'k llama_api \<Rightarrow> 'k te_context_t \<Rightarrow> te_error_t \<times> 'k te_context_t" where
  "te_sync_kv_cache L ctx =
     (if \<not> kv_cache_dirty ctx then (TE_OK, ctx)
      else
        let c1 = ctx\<lparr>llama_ctx := llama_kv_cache_clear L (llama_ctx ctx)\<rparr>
        in if n_tokens c1 > 0
           then
             let (result, k2) = llama_decode L (llama_ctx c1) (te_sync_batch c1);
                 c2 = c1\<lparr>llama_ctx := k2\<rparr>
             in if result \<noteq> 0 then (TE_ERROR_KV_CACHE_FULL, c2)
                else (TE_OK, c2\<lparr>logits_valid := True, kv_cache_dirty := False\<rparr>)
           else (TE_OK, c1\<lparr>kv_cache_dirty := False\<rparr>))"

section \<open>Token editor: binary export and import\<close>

text \<open>
  The caller's buffer is a memory image of bytes (\<open>None\<close> for \<open>NULL\<close>), and
  \<open>size_t *buf_size\<close> is a \<open>nat option\<close>. \<open>memcpy\<close> between a 32-bit object and bytes
  follows the little-endian object representation of the targets the repository builds
  for (x86-64 and AArch64).
\<close>

definition le32 :: "32 word \<Rightarrow> 8 word list" where
  "le32 w = [ucast w, ucast (drop_bit 8 w), ucast (drop_bit 16 w), ucast (drop_bit 24 w)]"

definition word_of_le32 :: "8 word list \<Rightarrow> 32 word" where
  "word_of_le32 bs =
     ucast (bs ! 0) OR push_bit 8 (ucast (bs ! 1)) OR push_bit 16 (ucast (bs ! 2))
       OR push_bit 24 (ucast (bs ! 3))"

definition te_export_binary ::
  "'k te_context_t \<Rightarrow> te_seq_id_t \<Rightarrow> (nat \<Rightarrow> 8 word) option \<Rightarrow> nat option
   \<Rightarrow> te_error_t \<times> (nat \<Rightarrow> 8 word) option \<times> nat option" where
  "te_export_binary ctx seq_id buf buf_size =
     (case (buf, buf_size) of
        (Some b, Some sz) \<Rightarrow>
          let needed = 4 + n_tokens ctx * 4
          in if sz < needed then (TE_ERROR_BUFFER_TOO_SMALL, Some b, Some needed)
             else
               let count = (of_nat (n_tokens ctx) :: 32 word);
                   b1 = memcpy b 0 (le32 count) 4;
                   b2 = memcpy b1 4 (concat (map le32 (cells (tokens ctx) 0 (n_tokens ctx))))
                          (n_tokens ctx * 4)
               in (TE_OK, Some b2, Some needed)
      | _ \<Rightarrow> (TE_ERROR_BUFFER_TOO_SMALL, buf, buf_size))"


section \<open>Token editor: initialisation\<close>

text \<open>
  \<open>te_init\<close> for a non-\<open>NULL\<close> runtime context and model: \<open>calloc\<close> zeroes both arrays.
\<close>

definition te_init :: "'k \<Rightarrow> llama_model \<Rightarrow> 'k te_context_t" where
  "te_init k model =
     \<lparr>llama_ctx = k, llama_model = model,
      tokens = (\<lambda>_. 0),
      token_info = (\<lambda>_. \<lparr>ti_id = 0, ti_pos = 0, ti_seq_id = 0, ti_has_logit = False,
                          ti_flags = 0\<rparr>),
      n_tokens = 0, capacity = TE_DEFAULT_CAPACITY,
      history = [], redo_stack = [], history_limit = TE_HISTORY_DEFAULT_LIMIT,
      active_sequences = [0],
      readonly = False, kv_cache_dirty = False, logits_valid = False,
      suppress_history = False\<rparr>"

definition te_set_history_limit :: "'k te_context_t \<Rightarrow> nat \<Rightarrow> 'k te_context_t" where
  "te_set_history_limit ctx limit = ctx\<lparr>history_limit := limit\<rparr>"

section \<open>Token editor: mutator calls and runs\<close>

text \<open>The five recording mutators of the API as calls, and their dispatch.\<close>

datatype te_call =
    Set_token te_pos_t te_seq_id_t te_token_t
  | Insert_tokens te_pos_t te_seq_id_t "te_token_t list option" nat
  | Delete_tokens te_range_t
  | Replace_tokens te_range_t "te_token_t list option" nat
  | Clear te_seq_id_t

fun te_apply :: "'k te_context_t \<Rightarrow> te_call \<Rightarrow> (te_error_t \<times> 'k te_context_t) option" where
  "te_apply ctx (Set_token pos seq_id token) = Some (te_set_token ctx pos seq_id token)"
| "te_apply ctx (Insert_tokens pos seq_id toks n) = te_insert_tokens ctx pos seq_id toks n"
| "te_apply ctx (Delete_tokens rg) = Some (te_delete_tokens ctx rg)"
| "te_apply ctx (Replace_tokens rg toks n) = te_replace_tokens ctx rg toks n"
| "te_apply ctx (Clear seq_id) = Some (te_clear ctx seq_id)"

text \<open>
  The path condition under which a call reaches \<open>te_record_edit\<close>, read off the guards of
  each mutator, and the node the call then hands to it.
\<close>

fun te_reaches_log :: "'k te_context_t \<Rightarrow> te_call \<Rightarrow> bool" where
  "te_reaches_log ctx (Set_token pos seq_id token) =
     (\<not> readonly ctx \<and> 0 \<le> pos \<and> nat pos < n_tokens ctx)"
| "te_reaches_log ctx (Insert_tokens pos seq_id toks n) =
     (\<not> readonly ctx \<and> 0 \<le> pos \<and> nat pos \<le> n_tokens ctx \<and> toks \<noteq> None \<and> n > 0)"
| "te_reaches_log ctx (Delete_tokens rg) =
     (\<not> readonly ctx \<and> r_start (te_clamp_range ctx rg) < r_end (te_clamp_range ctx rg))"
| "te_reaches_log ctx (Replace_tokens rg toks n) =
     (\<not> readonly ctx \<and> r_start (te_clamp_range ctx rg) < r_end (te_clamp_range ctx rg))"
| "te_reaches_log ctx (Clear seq_id) = (\<not> readonly ctx \<and> n_tokens ctx > 0)"

fun te_edit_of :: "'k te_context_t \<Rightarrow> te_call \<Rightarrow> te_edit_op_t" where
  "te_edit_of ctx (Set_token pos seq_id token) =
     (let rg = \<lparr>r_start = pos, r_end = pos + 1, r_seq_id = seq_id\<rparr>
      in te_make_edit_op TE_OP_REPLACE rg rg (Some [tokens ctx (nat pos)]) 1)"
| "te_edit_of ctx (Insert_tokens pos seq_id toks n) =
     (let rg = \<lparr>r_start = pos, r_end = pos + int n, r_seq_id = seq_id\<rparr>
      in te_make_edit_op TE_OP_INSERT rg rg toks n)"
| "te_edit_of ctx (Delete_tokens rg) =
     (let r = te_clamp_range ctx rg; count = nat (r_end r - r_start r)
      in te_make_edit_op TE_OP_DELETE r r
           (Some (cells (tokens ctx) (nat (r_start r)) (nat (r_start r) + count))) count)"
| "te_edit_of ctx (Replace_tokens rg toks n) =
     (let r = te_clamp_range ctx rg; count = nat (r_end r - r_start r)
      in te_make_edit_op TE_OP_REPLACE r r
           (Some (cells (tokens ctx) (nat (r_start r)) (nat (r_start r) + count))) count)"
| "te_edit_of ctx (Clear seq_id) =
     (let rg = \<lparr>r_start = 0, r_end = int (n_tokens ctx), r_seq_id = seq_id\<rparr>
      in te_make_edit_op TE_OP_DELETE rg rg (Some (cells (tokens ctx) 0 (n_tokens ctx)))
           (n_tokens ctx))"

text \<open>
  A run of calls each of which reaches the log and returns \<open>TE_OK\<close>: the final editor and
  the nodes handed to \<open>te_record_edit\<close>, in order. \<open>None\<close> when some call does not.
\<close>

fun te_run_recorded ::
  "'k te_context_t \<Rightarrow> te_call list \<Rightarrow> ('k te_context_t \<times> te_edit_op_t list) option" where
  "te_run_recorded ctx [] = Some (ctx, [])"
| "te_run_recorded ctx (x # xs) =
     (if \<not> te_reaches_log ctx x then None
      else case te_apply ctx x of
             None \<Rightarrow> None
           | Some (err, c1) \<Rightarrow>
               if err \<noteq> TE_OK then None
               else case te_run_recorded c1 xs of
                      None \<Rightarrow> None
                    | Some (c2, ops) \<Rightarrow> Some (c2, te_edit_of ctx x # ops))"

text \<open>
  The history that one recorded edit leaves: the new node appended to \<open>h\<close>, then the oldest
  nodes dropped while the count exceeds a positive limit \<open>L\<close>.
\<close>

definition te_logged :: "nat \<Rightarrow> te_edit_op_t list \<Rightarrow> te_edit_op_t \<Rightarrow> te_edit_op_t list" where
  "te_logged L h op = (if L > 0 then drop (Suc (length h) - L) (h @ [op]) else h @ [op])"

text \<open>
  A \<open>te_replace_tokens\<close> call whose writes stay within the live buffer: the clamped start
  is not beyond \<open>n_tokens\<close>, and a \<open>NULL\<close> payload comes with a zero count. Otherwise the
  call makes cells live that it has not written.
\<close>

definition te_replace_in_buffer ::
  "'k te_context_t \<Rightarrow> te_range_t \<Rightarrow> te_token_t list option \<Rightarrow> nat \<Rightarrow> bool" where
  "te_replace_in_buffer ctx rg toks n =
     (r_start (te_clamp_range ctx rg) \<le> int (n_tokens ctx) \<and> (toks = None \<longrightarrow> n = 0))"

text \<open>The token buffer \<open>tokens[0..n_tokens)\<close>.\<close>

definition te_buffer :: "'k te_context_t \<Rightarrow> te_token_t list" where
  "te_buffer ctx = cells (tokens ctx) 0 (n_tokens ctx)"

text \<open>The invariant \<open>token_info[i].id == tokens[i]\<close> for every \<open>i < n_tokens\<close>.\<close>

definition te_ids_ok :: "'k te_context_t \<Rightarrow> bool" where
  "te_ids_ok ctx = (\<forall>i < n_tokens ctx. ti_id (token_info ctx i) = tokens ctx i)"

section \<open>Recursive context environment: data model (recursive\_llm.h)\<close>

text \<open>
  Conventions. A \<open>rllm_context_t *\<close> is an address into \<open>env_heap\<close>, the memory that
  \<open>calloc\<close> hands out: allocation appends a cell, \<open>free\<close> empties it, and no address is
  reused, so a pointer to a freed context stays recognisable. The pool \<open>contexts\<close> and the
  array \<open>roots\<close> are the lists of their first \<open>n_contexts\<close> and \<open>n_roots\<close> entries, a child
  array is the list of its \<open>n_children\<close> entries. \<open>ctx->llama_ctx\<close> and
  \<open>ctx->token_editor->llama_ctx\<close> are the same pointer, so the runtime state is kept
  once, inside the editor. The environment callbacks are flags saying whether a callback
  is installed, and \<open>env_events\<close> is the trace of the callbacks fired. Handles are never
  \<open>NULL\<close>; the mailbox, the timing fields, the completion parameters and \<open>rllm_log\<close> are
  left out. A result \<open>None\<close> stands for a call that does not return or that dereferences
  a freed context.
\<close>

datatype rllm_relation_t =
    RLLM_REL_ROOT
  | RLLM_REL_CHILD
  | RLLM_REL_FORK
  | RLLM_REL_PEER

datatype rllm_state_t =
    RLLM_STATE_IDLE
  | RLLM_STATE_RUNNING
  | RLLM_STATE_WAITING
  | RLLM_STATE_COMPLETE
  | RLLM_STATE_ERROR
  | RLLM_STATE_SUSPENDED

datatype rllm_share_mode_t =
    RLLM_SHARE_NONE
  | RLLM_SHARE_KV_READ
  | RLLM_SHARE_KV_COPY
  | RLLM_SHARE_TOKENS_READ
  | RLLM_SHARE_TOKENS_COPY
  | RLLM_SHARE_FULL

datatype rllm_error_t =
    RLLM_OK
  | RLLM_ERROR_MAX_DEPTH
  | RLLM_ERROR_MAX_CONTEXTS
  | RLLM_ERROR_INVALID_CONTEXT
  | RLLM_ERROR_INVALID_PARENT
  | RLLM_ERROR_CONTEXT_BUSY
  | RLLM_ERROR_RECURSION_LIMIT
  | RLLM_ERROR_MEMORY
  | RLLM_ERROR_MODEL
  | RLLM_ERROR_DEADLOCK
  | RLLM_ERROR_TIMEOUT

record rllm_ctx_config_t =
  cfg_n_ctx :: "32 word"
  cfg_n_batch :: "32 word"
  cfg_n_threads :: "32 word"
  cfg_share_mode :: rllm_share_mode_t
  cfg_inherit_prompt :: bool
  cfg_inherit_sampling :: bool

type_synonym rllm_ptr = nat

record 'k rllm_context_t =
  rc_id :: "32 word"
  rc_relation :: rllm_relation_t
  rc_state :: rllm_state_t
  rc_parent :: "rllm_ptr option"
  rc_children :: "rllm_ptr list"
  rc_depth :: "32 word"
  rc_token_editor :: "'k te_context_t option"
  rc_config :: rllm_ctx_config_t

record rllm_env_config_t =
  ec_max_depth :: "32 word"
  ec_max_contexts :: "32 word"
  ec_default_n_ctx :: "32 word"
  ec_default_n_batch :: "32 word"
  ec_default_n_threads :: "32 word"
  ec_memory_limit :: nat
  ec_enable_logging :: bool
  ec_enable_metrics :: bool

datatype rllm_event =
    On_context_create rllm_ptr
  | On_context_destroy rllm_ptr
  | On_recursion rllm_ptr rllm_ptr

record 'k rllm_env_t =
  env_model :: llama_model
  env_heap :: "'k rllm_context_t option list"
  env_contexts :: "rllm_ptr list"
  env_next_ctx_id :: "32 word"
  env_roots :: "rllm_ptr list"
  env_config :: rllm_env_config_t
  env_total_contexts_created :: "64 word"
  env_total_recursions :: "64 word"
  env_peak_depth :: "64 word"
  env_on_context_create :: bool
  env_on_context_destroy :: bool
  env_on_recursion :: bool
  env_events :: "rllm_event list"

definition RLLM_MAX_DEPTH :: "32 word" where "RLLM_MAX_DEPTH = 32"
definition RLLM_MAX_CONTEXTS :: "32 word" where "RLLM_MAX_CONTEXTS = 64"

section \<open>Recursive context environment: internal helpers\<close>

definition rllm_deref :: "'k rllm_env_t \<Rightarrow> rllm_ptr \<Rightarrow> 'k rllm_context_t option" where
  "rllm_deref env p = (if p < length (env_heap env) then env_heap env ! p else None)"

definition rllm_write :: "'k rllm_env_t \<Rightarrow> rllm_ptr \<Rightarrow> 'k rllm_context_t \<Rightarrow> 'k rllm_env_t" where
  "rllm_write env p node = env\<lparr>env_heap := (env_heap env)[p := Some node]\<rparr>"

definition rllm_free :: "'k rllm_env_t \<Rightarrow> rllm_ptr \<Rightarrow> 'k rllm_env_t" where
  "rllm_free env p = env\<lparr>env_heap := (env_heap env)[p := None]\<rparr>"

definition rllm_fire :: "bool \<Rightarrow> rllm_event \<Rightarrow> 'k rllm_env_t \<Rightarrow> 'k rllm_env_t" where
  "rllm_fire installed ev env =
     (if installed then env\<lparr>env_events := env_events env @ [ev]\<rparr> else env)"

definition rllm_alloc_context :: "'k rllm_env_t \<Rightarrow> rllm_ptr option \<times> 'k rllm_env_t" where
  "rllm_alloc_context env =
     (if length (env_contexts env) \<ge> unat (ec_max_contexts (env_config env)) then (None, env)
      else
        let ctx = length (env_heap env);
            node = \<lparr>rc_id = env_next_ctx_id env, rc_relation = RLLM_REL_ROOT,
                    rc_state = RLLM_STATE_IDLE, rc_parent = None, rc_children = [],
                    rc_depth = 0, rc_token_editor = None,
                    rc_config = \<lparr>cfg_n_ctx = 0, cfg_n_batch = 0, cfg_n_threads = 0,
                                  cfg_share_mode = RLLM_SHARE_NONE,
                                  cfg_inherit_prompt = False,
                                  cfg_inherit_sampling = False\<rparr>\<rparr>
        in (Some ctx,
            env\<lparr>env_heap := env_heap env @ [Some node],
                env_next_ctx_id := env_next_ctx_id env + 1,
                env_contexts := env_contexts env @ [ctx],
                env_total_contexts_created := env_total_contexts_created env + 1\<rparr>))"

text \<open>
  The two loops of \<open>rllm_free_context_internal\<close>: children first, then the node. The
  recursion follows the child arrays in the heap, so it carries fuel; \<open>None\<close> also when
  it meets a freed context.
\<close>

fun rllm_free_context_internal :: "nat \<Rightarrow> 'k rllm_env_t \<Rightarrow> rllm_ptr \<Rightarrow> 'k rllm_env_t option"
  and rllm_free_children :: "nat \<Rightarrow> 'k rllm_env_t \<Rightarrow> rllm_ptr list \<Rightarrow> 'k rllm_env_t option" where
  "rllm_free_context_internal 0 env ctx = None"
| "rllm_free_context_internal (Suc fuel) env ctx =
     (case rllm_deref env ctx of
        None \<Rightarrow> None
      | Some node \<Rightarrow>
          (case rllm_free_children fuel env (rc_children node) of
             None \<Rightarrow> None
           | Some env1 \<Rightarrow> Some (rllm_free env1 ctx)))"
| "rllm_free_children fuel env [] = Some env"
| "rllm_free_children fuel env (c # cs) =
     (case rllm_free_context_internal fuel env c of
        None \<Rightarrow> None
      | Some env1 \<Rightarrow> rllm_free_children fuel env1 cs)"

definition rllm_remove_from_pool :: "'k rllm_env_t \<Rightarrow> rllm_ptr \<Rightarrow> 'k rllm_env_t" where
  "rllm_remove_from_pool env ctx = env\<lparr>env_contexts := remove1 ctx (env_contexts env)\<rparr>"

definition rllm_add_child :: "'k rllm_env_t \<Rightarrow> rllm_ptr \<Rightarrow> rllm_ptr \<Rightarrow> 'k rllm_env_t option" where
  "rllm_add_child env parent child =
     (case rllm_deref env parent of
        None \<Rightarrow> None
      | Some pn \<Rightarrow>
          let env1 = rllm_write env parent (pn\<lparr>rc_children := rc_children pn @ [child]\<rparr>)
          in case rllm_deref env1 child of
               None \<Rightarrow> None
             | Some cn \<Rightarrow>
                 Some (rllm_write env1 child
                         (cn\<lparr>rc_parent := Some parent, rc_depth := rc_depth pn + 1\<rparr>)))"

definition rllm_remove_child :: "'k rllm_env_t \<Rightarrow> rllm_ptr \<Rightarrow> rllm_ptr \<Rightarrow> 'k rllm_env_t option" where
  "rllm_remove_child env parent child =
     (case rllm_deref env parent of
        None \<Rightarrow> None
      | Some pn \<Rightarrow>
          if child \<in> set (rc_children pn)
          then
            let env1 = rllm_write env parent (pn\<lparr>rc_children := remove1 child (rc_children pn)\<rparr>)
            in case rllm_deref env1 child of
                 None \<Rightarrow> None
               | Some cn \<Rightarrow> Some (rllm_write env1 child (cn\<lparr>rc_parent := None\<rparr>))
          else Some env)"

section \<open>Recursive context environment: lifecycle\<close>

definition rllm_init :: "llama_model \<Rightarrow> rllm_env_config_t \<Rightarrow> 'k rllm_env_t" where
  "rllm_init model config =
     \<lparr>env_model = model, env_heap = [], env_contexts = [], env_next_ctx_id = 0,
      env_roots = [], env_config = config, env_total_contexts_created = 0,
      env_total_recursions = 0, env_peak_depth = 0, env_on_context_create = False,
      env_on_context_destroy = False, env_on_recursion = False, env_events = []\<rparr>"

definition rllm_create_root ::
  "'k llama_api \<Rightarrow> 'k rllm_env_t \<Rightarrow> rllm_ctx_config_t \<Rightarrow> rllm_ptr option \<times> 'k rllm_env_t" where
  "rllm_create_root L env config =
     (case rllm_alloc_context env of
        (None, env1) \<Rightarrow> (None, env1)
      | (Some ctx, env1) \<Rightarrow>
          let node = (the (rllm_deref env1 ctx))
                       \<lparr>rc_relation := RLLM_REL_ROOT, rc_config := config, rc_depth := 0\<rparr>;
              cparams = \<lparr>cp_n_ctx = cfg_n_ctx config, cp_n_batch = cfg_n_batch config,
                         cp_n_threads = cfg_n_threads config,
                         cp_n_threads_batch = cfg_n_threads config\<rparr>
          in case llama_new_context_with_model L cparams of
               None \<Rightarrow> (None, rllm_free (rllm_remove_from_pool env1 ctx) ctx)
             | Some k \<Rightarrow>
                 let env2 = rllm_write env1 ctx
                              (node\<lparr>rc_token_editor := Some (te_init k (env_model env1))\<rparr>);
                     env3 = (if length (env_roots env2) < 8
                             then env2\<lparr>env_roots := env_roots env2 @ [ctx]\<rparr> else env2)
                 in (Some ctx,
                     rllm_fire (env_on_context_create env3) (On_context_create ctx) env3))"

text \<open>
  The block of \<open>rllm_spawn_child\<close> under the comment \<open>Handle sharing mode\<close>: the child's
  fresh editor \<open>child_te\<close> (holding the child's new runtime context) after the two
  \<open>if\<close> statements on \<open>config.share_mode\<close>, given the parent's editor.
\<close>

definition rllm_share ::
  "'k llama_api \<Rightarrow> rllm_share_mode_t \<Rightarrow> 'k te_context_t option \<Rightarrow> 'k te_context_t
   \<Rightarrow> 'k te_context_t option" where
  "rllm_share L share_mode parent_te child_te =
     (case (if share_mode = RLLM_SHARE_KV_COPY \<or> share_mode = RLLM_SHARE_FULL
            then (case parent_te of
                    None \<Rightarrow> None
                  | Some pte \<Rightarrow>
                      let state = llama_copy_state_data L (llama_ctx pte)
                      in Some (child_te\<lparr>llama_ctx :=
                                 llama_set_state_data L (llama_ctx child_te) state\<rparr>))
            else Some child_te) of
        None \<Rightarrow> None
      | Some te1 \<Rightarrow>
          if share_mode = RLLM_SHARE_TOKENS_COPY \<or> share_mode = RLLM_SHARE_FULL
          then (case parent_te of
                  None \<Rightarrow> Some te1
                | Some pte \<Rightarrow>
                    if n_tokens pte > 0
                    then
                      let rg = \<lparr>r_start = 0, r_end = int (n_tokens pte), r_seq_id = - 1\<rparr>;
                          (err, out, n) = te_get_tokens pte rg (n_tokens pte)
                      in map_option snd (te_insert_tokens te1 0 0 (Some out) n)
                    else Some te1)
          else Some te1)"

text \<open>
  The context parameters \<open>rllm_spawn_child\<close> computes: each size from the child's
  configuration when positive, from the parent's otherwise.
\<close>

definition rllm_child_cparams ::
  "rllm_ctx_config_t \<Rightarrow> rllm_ctx_config_t \<Rightarrow> llama_context_params" where
  "rllm_child_cparams config parent_config =
     (let n_thr = (if cfg_n_threads config > 0 then cfg_n_threads config
                   else cfg_n_threads parent_config)
      in \<lparr>cp_n_ctx = (if cfg_n_ctx config > 0 then cfg_n_ctx config
                      else cfg_n_ctx parent_config),
          cp_n_batch = (if cfg_n_batch config > 0 then cfg_n_batch config
                        else cfg_n_batch parent_config),
          cp_n_threads = n_thr, cp_n_threads_batch = n_thr\<rparr>)"

text \<open>
  The end of \<open>rllm_spawn_child\<close>, after \<open>rllm_add_child\<close>: the peak depth, the recursion
  counter and the two callbacks.
\<close>

definition rllm_spawned :: "'k rllm_env_t \<Rightarrow> rllm_ptr \<Rightarrow> rllm_ptr \<Rightarrow> 'k rllm_env_t" where
  "rllm_spawned env parent ctx =
     (let d = rc_depth (the (rllm_deref env ctx));
          env3 = (if ucast d > env_peak_depth env then env\<lparr>env_peak_depth := ucast d\<rparr> else env);
          env4 = env3\<lparr>env_total_recursions := env_total_recursions env3 + 1\<rparr>;
          env5 = rllm_fire (env_on_context_create env4) (On_context_create ctx) env4
      in rllm_fire (env_on_recursion env5) (On_recursion parent ctx) env5)"

definition rllm_spawn_child ::
  "'k llama_api \<Rightarrow> 'k rllm_env_t \<Rightarrow> rllm_ptr \<Rightarrow> rllm_ctx_config_t
   \<Rightarrow> (rllm_ptr option \<times> 'k rllm_env_t) option" where
  "rllm_spawn_child L env parent config =
     (case rllm_deref env parent of
        None \<Rightarrow> None
      | Some pn \<Rightarrow>
          if rc_depth pn + 1 \<ge> ec_max_depth (env_config env) then Some (None, env)
          else case rllm_alloc_context env of
            (None, env1) \<Rightarrow> Some (None, env1)
          | (Some ctx, env1) \<Rightarrow>
              let node = (the (rllm_deref env1 ctx))
                           \<lparr>rc_relation := RLLM_REL_CHILD, rc_config := config\<rparr>;
                  cparams = rllm_child_cparams config (rc_config pn)
              in case llama_new_context_with_model L cparams of
                   None \<Rightarrow> Some (None, rllm_free (rllm_remove_from_pool env1 ctx) ctx)
                 | Some k \<Rightarrow>
                     (case rllm_share L (cfg_share_mode config) (rc_token_editor pn)
                             (te_init k (env_model env1)) of
                        None \<Rightarrow> None
                      | Some te \<Rightarrow>
                          (case rllm_add_child
                                  (rllm_write env1 ctx (node\<lparr>rc_token_editor := Some te\<rparr>))
                                  parent ctx of
                             None \<Rightarrow> None
                           | Some env2 \<Rightarrow> Some (Some ctx, rllm_spawned env2 parent ctx))))"

definition rllm_destroy ::
  "nat \<Rightarrow> 'k rllm_env_t \<Rightarrow> rllm_ptr \<Rightarrow> (rllm_error_t \<times> 'k rllm_env_t) option" where
  "rllm_destroy fuel env ctx =
     (case rllm_deref env ctx of
        None \<Rightarrow> None
      | Some node \<Rightarrow>
          let env1 = rllm_fire (env_on_context_destroy env) (On_context_destroy ctx) env
          in case (case rc_parent node of
                     None \<Rightarrow> Some env1
                   | Some p \<Rightarrow> rllm_remove_child env1 p ctx) of
               None \<Rightarrow> None
             | Some env2 \<Rightarrow>
                 let env3 = env2\<lparr>env_roots := remove1 ctx (env_roots env2)\<rparr>;
                     env4 = rllm_remove_from_pool env3 ctx
                 in case rllm_free_context_internal fuel env4 ctx of
                      None \<Rightarrow> None
                    | Some env5 \<Rightarrow> Some (RLLM_OK, env5))"

section \<open>Recursive context environment: traversal\<close>

fun rllm_count_descendants :: "nat \<Rightarrow> 'k rllm_env_t \<Rightarrow> rllm_ptr \<Rightarrow> nat option"
  and rllm_count_children :: "nat \<Rightarrow> 'k rllm_env_t \<Rightarrow> rllm_ptr list \<Rightarrow> nat option" where
  "rllm_count_descendants 0 env ctx = None"
| "rllm_count_descendants (Suc fuel) env ctx =
     (case rllm_deref env ctx of
        None \<Rightarrow> None
      | Some node \<Rightarrow> rllm_count_children fuel env (rc_children node))"
| "rllm_count_children fuel env [] = Some 0"
| "rllm_count_children fuel env (c # cs) =
     (case rllm_count_descendants fuel env c of
        None \<Rightarrow> None
      | Some k \<Rightarrow> map_option (\<lambda>count. 1 + k + count) (rllm_count_children fuel env cs))"

definition rllm_get_depth :: "'k rllm_env_t \<Rightarrow> rllm_ptr \<Rightarrow> 32 word option" where
  "rllm_get_depth env ctx = map_option rc_depth (rllm_deref env ctx)"


section \<open>Concrete instances\<close>

text \<open>
  A vocabulary in which no token is special, and a runtime whose state is the list of
  tokens decoded so far and whose decode always succeeds.
\<close>

definition stub_model :: llama_model where
  "stub_model = \<lparr>token_is_eog = (\<lambda>t. False), token_bos = 1,
                 token_attr_control = (\<lambda>t. False), token_attr_special = (\<lambda>t. False)\<rparr>"

definition stub_api :: "8 word list llama_api" where
  "stub_api = \<lparr>llama_kv_cache_clear = (\<lambda>k. []),
               llama_decode = (\<lambda>k batch. (0, k @ concat (map (le32 \<circ> b_token) batch))),
               llama_copy_state_data = (\<lambda>k. k),
               llama_set_state_data = (\<lambda>k bytes. bytes),
               llama_new_context_with_model = (\<lambda>p. Some [])\<rparr>"

text \<open>The same runtime with a decode that always fails.\<close>

definition stub_api_full :: "8 word list llama_api" where
  "stub_api_full = stub_api\<lparr>llama_decode := (\<lambda>k batch. (1, k))\<rparr>"

text \<open>A fresh editor after \<open>te_insert_tokens(ctx, 0, 0, {5}, 1)\<close>.\<close>

definition editor_5 :: "8 word list te_context_t" where
  "editor_5 = snd (the (te_insert_tokens (te_init [] stub_model) 0 0 (Some [5]) 1))"


text \<open>
  The one-token editor with \<open>te_set_history_limit(ctx, 2)\<close>, three \<open>te_set_token\<close> calls on
  it, and the node a \<open>te_set_token\<close> at position 0 records when the old token is \<open>old\<close>.
\<close>

definition editor_5_limit_2 :: "8 word list te_context_t" where
  "editor_5_limit_2 = te_set_history_limit editor_5 2"

definition three_set_tokens :: "te_call list" where
  "three_set_tokens = [Set_token 0 0 7, Set_token 0 0 8, Set_token 0 0 9]"

definition set_token_op :: "te_token_t \<Rightarrow> te_edit_op_t" where
  "set_token_op old =
     te_make_edit_op TE_OP_REPLACE \<lparr>r_start = 0, r_end = 1, r_seq_id = 0\<rparr>
       \<lparr>r_start = 0, r_end = 1, r_seq_id = 0\<rparr> (Some [old]) 1"

text \<open>
  The one-token editor after \<open>te_set_token(ctx, 0, 0, 9)\<close>, then \<open>te_undo\<close>, then
  \<open>te_redo\<close>; and a fresh editor after inserting \<open>{1, 2, 3}\<close>, then replacing \<open>[0, 1)\<close> by
  \<open>{7, 8}\<close>, then \<open>te_undo\<close>.
\<close>

definition editor_9 :: "8 word list te_context_t" where
  "editor_9 = snd (te_set_token editor_5 0 0 9)"

definition editor_9_undone :: "8 word list te_context_t" where
  "editor_9_undone = snd (the (te_undo editor_9))"

definition editor_9_redone :: "8 word list te_context_t" where
  "editor_9_redone = snd (the (te_redo editor_9_undone))"

definition editor_123 :: "8 word list te_context_t" where
  "editor_123 = snd (the (te_insert_tokens (te_init [] stub_model) 0 0 (Some [1, 2, 3]) 3))"

definition editor_7823 :: "8 word list te_context_t" where
  "editor_7823 =
     snd (the (te_replace_tokens editor_123 \<lparr>r_start = 0, r_end = 1, r_seq_id = 0\<rparr>
                 (Some [7, 8]) 2))"

definition editor_7823_undone :: "8 word list te_context_t" where
  "editor_7823_undone = snd (the (te_undo editor_7823))"





text \<open>A fresh editor after \<open>te_clear(ctx, 0)\<close>: empty and dirty.\<close>

definition editor_cleared :: "8 word list te_context_t" where
  "editor_cleared = snd (te_clear (te_init [] stub_model) 0)"

text \<open>
  An environment with \<open>max_depth = 3\<close> and all three callbacks installed; a root context,
  a child of the root, and a child of that child, each spawned with the same configuration.
\<close>

definition demo_env_config :: rllm_env_config_t where
  "demo_env_config =
     \<lparr>ec_max_depth = 3, ec_max_contexts = 64, ec_default_n_ctx = 2048,
      ec_default_n_batch = 512, ec_default_n_threads = 4, ec_memory_limit = 0,
      ec_enable_logging = False, ec_enable_metrics = True\<rparr>"

definition demo_ctx_config :: "rllm_share_mode_t \<Rightarrow> rllm_ctx_config_t" where
  "demo_ctx_config mode =
     \<lparr>cfg_n_ctx = 2048, cfg_n_batch = 512, cfg_n_threads = 4, cfg_share_mode = mode,
      cfg_inherit_prompt = False, cfg_inherit_sampling = False\<rparr>"

definition demo_env0 :: "8 word list rllm_env_t" where
  "demo_env0 =
     (rllm_init stub_model demo_env_config)
       \<lparr>env_on_context_create := True, env_on_context_destroy := True,
        env_on_recursion := True\<rparr>"

definition demo_env1 :: "8 word list rllm_env_t" where
  "demo_env1 = snd (rllm_create_root stub_api demo_env0 (demo_ctx_config RLLM_SHARE_NONE))"

definition demo_env2 :: "8 word list rllm_env_t" where
  "demo_env2 =
     snd (the (rllm_spawn_child stub_api demo_env1 0 (demo_ctx_config RLLM_SHARE_NONE)))"

definition demo_env3 :: "8 word list rllm_env_t" where
  "demo_env3 =
     snd (the (rllm_spawn_child stub_api demo_env2 1 (demo_ctx_config RLLM_SHARE_NONE)))"




section \<open>Undo and redo on an empty log\<close>

text \<open>
  C10. \<open>te_undo\<close> on an editor whose history is empty, and \<open>te_redo\<close> on an editor whose
  redo stack is empty, return \<open>TE_OK\<close> and leave the whole editor (token buffer, history,
  redo stack and every other field) as it was.
\<close>

theorem te_undo_redo_empty_noop:
  "(history ctx = [] \<longrightarrow> te_undo ctx = Some (TE_OK, ctx)) \<and>
   (redo_stack ctx = [] \<longrightarrow> te_redo ctx = Some (TE_OK, ctx))"
  by (simp add: te_undo_def te_redo_def)

theorem te_undo_redo_empty_noop_witness:
  "history (te_init () stub_model) = [] \<and> redo_stack (te_init () stub_model) = [] \<and>
   te_undo (te_init () stub_model) = Some (TE_OK, te_init () stub_model) \<and>
   te_redo (te_init () stub_model) = Some (TE_OK, te_init () stub_model)"
  using te_undo_redo_empty_noop [of "te_init () stub_model"]
  by (simp add: te_init_def)

section \<open>Memory images and byte order\<close>

lemma length_cells [simp]: "length (cells a lo hi) = hi - lo"
  by (simp add: cells_def)

lemma nth_cells [simp]: "i < hi - lo \<Longrightarrow> cells a lo hi ! i = a (lo + i)"
  by (simp add: cells_def)

lemma cells_append:
  "lo \<le> mid \<Longrightarrow> mid \<le> hi \<Longrightarrow> cells a lo hi = cells a lo mid @ cells a mid hi"
  unfolding cells_def by (metis le_Suc_ex map_append upt_add_eq_append)

lemma cells_memcpy_same: "length xs = n \<Longrightarrow> cells (memcpy a d xs n) d (d + n) = xs"
  by (auto simp: cells_def memcpy_def intro!: nth_equalityI)

lemma cells_memcpy_below: "hi \<le> d \<Longrightarrow> cells (memcpy a d xs n) lo hi = cells a lo hi"
  by (auto simp: cells_def memcpy_def)

lemma length_le32 [simp]: "length (le32 w) = 4"
  by (simp add: le32_def)

lemma length_concat_le32 [simp]: "length (concat (map le32 ws)) = 4 * length ws"
  by (induction ws) simp_all

lemma word_of_le32_le32: "word_of_le32 (le32 w) = w"
  unfolding word_of_le32_def le32_def
proof (rule bit_word_eqI)
  fix n
  assume "n < LENGTH(32)"
  then consider "n < 8" | "8 \<le> n" "n < 16" | "16 \<le> n" "n < 24" | "24 \<le> n" "n < 32"
    by fastforce
  then show "bit (ucast ([ucast w, ucast (drop_bit 8 w), ucast (drop_bit 16 w),
                   ucast (drop_bit 24 w) :: 8 word] ! 0) OR
             push_bit 8 (ucast ([ucast w, ucast (drop_bit 8 w), ucast (drop_bit 16 w),
                   ucast (drop_bit 24 w) :: 8 word] ! 1)) OR
             push_bit 16 (ucast ([ucast w, ucast (drop_bit 8 w), ucast (drop_bit 16 w),
                   ucast (drop_bit 24 w) :: 8 word] ! 2)) OR
             push_bit 24 (ucast ([ucast w, ucast (drop_bit 8 w), ucast (drop_bit 16 w),
                   ucast (drop_bit 24 w) :: 8 word] ! 3)) :: 32 word) n = bit w n"
    by cases (auto simp: bit_simps)
qed

section \<open>The concrete editors\<close>

lemma editor_5_simps:
  "n_tokens editor_5 = 1" "tokens editor_5 0 = 5" "kv_cache_dirty editor_5"
  "\<not> logits_valid editor_5"
  by (simp_all add: editor_5_def te_insert_tokens_def te_init_def te_ensure_capacity_def
      TE_DEFAULT_CAPACITY_def TE_HISTORY_DEFAULT_LIMIT_def te_record_edit_def memcpy_def
      te_store_def te_stamp_info_def Let_def)

lemma editor_cleared_simps:
  "n_tokens editor_cleared = 0" "kv_cache_dirty editor_cleared" "\<not> logits_valid editor_cleared"
  by (simp_all add: editor_cleared_def te_clear_def te_init_def)

section \<open>Binary export\<close>

text \<open>
  C8. For an editor holding \<open>N\<close> tokens and a non-\<open>NULL\<close> buffer whose declared size is at
  least \<open>4 + 4 * N\<close>, \<open>te_export_binary\<close> returns \<open>TE_OK\<close>, sets \<open>*buf_size\<close> to
  \<open>4 + 4 * N\<close>, and the first \<open>4 + 4 * N\<close> bytes of the buffer are the little-endian
  \<open>uint32_t\<close> count \<open>N\<close> followed by the little-endian token IDs in order; the header
  reads back as \<open>N\<close> (for \<open>N\<close> below \<open>2^32\<close>, the range of the count), and an empty editor
  yields the bytes \<open>00 00 00 00\<close>. With a smaller declared size the call returns
  \<open>TE_ERROR_BUFFER_TOO_SMALL\<close>, leaves the buffer alone and sets \<open>*buf_size\<close> to
  \<open>4 + 4 * N\<close>.
\<close>

theorem te_export_binary_format:
  "(4 + 4 * n_tokens ctx \<le> sz \<longrightarrow>
      fst (te_export_binary ctx seq_id (Some b) (Some sz)) = TE_OK \<and>
      snd (snd (te_export_binary ctx seq_id (Some b) (Some sz))) = Some (4 + 4 * n_tokens ctx) \<and>
      fst (snd (te_export_binary ctx seq_id (Some b) (Some sz))) \<noteq> None \<and>
      cells (the (fst (snd (te_export_binary ctx seq_id (Some b) (Some sz))))) 0
            (4 + 4 * n_tokens ctx) =
        le32 (of_nat (n_tokens ctx)) @ concat (map le32 (cells (tokens ctx) 0 (n_tokens ctx))) \<and>
      (n_tokens ctx = 0 \<longrightarrow>
         cells (the (fst (snd (te_export_binary ctx seq_id (Some b) (Some sz))))) 0 4 = [0, 0, 0, 0]) \<and>
      (n_tokens ctx < 2 ^ 32 \<longrightarrow>
         unat (word_of_le32
                (cells (the (fst (snd (te_export_binary ctx seq_id (Some b) (Some sz))))) 0 4)) =
           n_tokens ctx)) \<and>
   (sz < 4 + 4 * n_tokens ctx \<longrightarrow>
      te_export_binary ctx seq_id (Some b) (Some sz) =
        (TE_ERROR_BUFFER_TOO_SMALL, Some b, Some (4 + 4 * n_tokens ctx)))"
proof -
  let ?n = "n_tokens ctx"
  let ?hdr = "le32 (of_nat ?n)"
  let ?body = "concat (map le32 (cells (tokens ctx) 0 ?n))"
  let ?b2 = "memcpy (memcpy b 0 ?hdr 4) 4 ?body (?n * 4)"
  have lb: "length ?body = ?n * 4" by simp
  have hdr: "cells ?b2 0 4 = ?hdr"
    using cells_memcpy_same [of ?hdr 4 b 0] by (simp add: cells_memcpy_below)
  have body: "cells ?b2 4 (4 + ?n * 4) = ?body"
    by (rule cells_memcpy_same [OF lb])
  have all: "cells ?b2 0 (4 + 4 * ?n) = ?hdr @ ?body"
    using cells_append [of 0 4 "4 + ?n * 4" ?b2] hdr body by (simp add: mult.commute)
  have zero: "?n = 0 \<Longrightarrow> cells ?b2 0 4 = [0, 0, 0, 0]"
    using hdr by (simp add: le32_def)
  have cnt: "?n < 2 ^ 32 \<Longrightarrow> unat (word_of_le32 (cells ?b2 0 4)) = ?n"
    using hdr by (simp add: word_of_le32_le32 unat_of_nat)
  show ?thesis
    using all zero cnt by (simp add: te_export_binary_def Let_def)
qed

theorem te_export_binary_format_witness:
  "4 + 4 * n_tokens editor_5 \<le> 8 \<and>
   fst (te_export_binary editor_5 0 (Some (\<lambda>_. 255)) (Some 8)) = TE_OK \<and>
   snd (snd (te_export_binary editor_5 0 (Some (\<lambda>_. 255)) (Some 8))) = Some 8 \<and>
   cells (the (fst (snd (te_export_binary editor_5 0 (Some (\<lambda>_. 255)) (Some 8))))) 0 8 =
     [1, 0, 0, 0, 5, 0, 0, 0] \<and>
   7 < 4 + 4 * n_tokens editor_5 \<and>
   te_export_binary editor_5 0 (Some (\<lambda>_. 255)) (Some 7) =
     (TE_ERROR_BUFFER_TOO_SMALL, Some (\<lambda>_. 255), Some 8) \<and>
   n_tokens editor_cleared = 0 \<and> n_tokens editor_cleared < 2 ^ 32 \<and>
   cells (the (fst (snd (te_export_binary editor_cleared 0 (Some (\<lambda>_. 255)) (Some 4))))) 0 4 =
     [0, 0, 0, 0]"
  using te_export_binary_format [of editor_5 8 0 "\<lambda>_. 255"]
        te_export_binary_format [of editor_5 7 0 "\<lambda>_. 255"]
        te_export_binary_format [of editor_cleared 4 0 "\<lambda>_. 255"]
  by (simp add: editor_5_simps editor_cleared_simps le32_def cells_def)

section \<open>Cache synchronisation\<close>

text \<open>
  C6, as stated, at an empty dirty editor (a fresh editor after \<open>te_clear\<close>):
  \<open>kv_cache_dirty\<close> is true and the runtime's decode of the editor's batch succeeds, yet
  \<open>te_sync_kv_cache\<close> returns \<open>TE_OK\<close> with \<open>logits_valid\<close> still false; and with a
  runtime whose decode fails it returns \<open>TE_OK\<close>, not \<open>TE_ERROR_KV_CACHE_FULL\<close>, and the
  editor is clean. The \<open>n_tokens > 0\<close> guard skips the decode.
\<close>

theorem te_sync_kv_cache_empty_counterexample:
  "kv_cache_dirty editor_cleared \<and>
   fst (llama_decode stub_api (llama_kv_cache_clear stub_api (llama_ctx editor_cleared))
          (te_sync_batch editor_cleared)) = 0 \<and>
   fst (te_sync_kv_cache stub_api editor_cleared) = TE_OK \<and>
   \<not> logits_valid (snd (te_sync_kv_cache stub_api editor_cleared)) \<and>
   fst (llama_decode stub_api_full (llama_kv_cache_clear stub_api_full (llama_ctx editor_cleared))
          (te_sync_batch editor_cleared)) \<noteq> 0 \<and>
   fst (te_sync_kv_cache stub_api_full editor_cleared) = TE_OK \<and>
   \<not> kv_cache_dirty (snd (te_sync_kv_cache stub_api_full editor_cleared))"
  by (simp add: te_sync_kv_cache_def editor_cleared_simps stub_api_def stub_api_full_def)

text \<open>
  C6, amended. A clean editor: \<open>TE_OK\<close> and nothing changes. A dirty editor holding at
  least one token: the cache is cleared and one batch of all tokens is decoded on the
  cleared cache, the tokens of the buffer in order at positions 0, 1, ... in sequence 0
  with logits requested at the last position only; when the decode returns 0 the result
  is \<open>TE_OK\<close> with \<open>kv_cache_dirty\<close> false and \<open>logits_valid\<close> true, otherwise the
  result is \<open>TE_ERROR_KV_CACHE_FULL\<close> and the flags are untouched, so
  \<open>kv_cache_dirty\<close> stays true; in both cases the runtime context is in the state the
  decode left. A dirty editor holding no token: the cache is cleared, no decode is made,
  the result is \<open>TE_OK\<close> with \<open>kv_cache_dirty\<close> false and \<open>logits_valid\<close> unchanged.
  Nothing else of the editor changes.
\<close>

theorem te_sync_kv_cache_cases:
  "(\<not> kv_cache_dirty ctx \<longrightarrow> te_sync_kv_cache L ctx = (TE_OK, ctx)) \<and>
   (kv_cache_dirty ctx \<and> n_tokens ctx > 0 \<and>
    fst (llama_decode L (llama_kv_cache_clear L (llama_ctx ctx)) (te_sync_batch ctx)) = 0 \<longrightarrow>
      fst (te_sync_kv_cache L ctx) = TE_OK \<and>
      \<not> kv_cache_dirty (snd (te_sync_kv_cache L ctx)) \<and>
      logits_valid (snd (te_sync_kv_cache L ctx)) \<and>
      snd (te_sync_kv_cache L ctx) =
        ctx\<lparr>llama_ctx := snd (llama_decode L (llama_kv_cache_clear L (llama_ctx ctx))
                                 (te_sync_batch ctx)),
            logits_valid := True, kv_cache_dirty := False\<rparr>) \<and>
   (kv_cache_dirty ctx \<and> n_tokens ctx > 0 \<and>
    fst (llama_decode L (llama_kv_cache_clear L (llama_ctx ctx)) (te_sync_batch ctx)) \<noteq> 0 \<longrightarrow>
      fst (te_sync_kv_cache L ctx) = TE_ERROR_KV_CACHE_FULL \<and>
      kv_cache_dirty (snd (te_sync_kv_cache L ctx)) \<and>
      snd (te_sync_kv_cache L ctx) =
        ctx\<lparr>llama_ctx := snd (llama_decode L (llama_kv_cache_clear L (llama_ctx ctx))
                                 (te_sync_batch ctx))\<rparr>) \<and>
   (kv_cache_dirty ctx \<and> n_tokens ctx = 0 \<longrightarrow>
      fst (te_sync_kv_cache L ctx) = TE_OK \<and>
      \<not> kv_cache_dirty (snd (te_sync_kv_cache L ctx)) \<and>
      logits_valid (snd (te_sync_kv_cache L ctx)) = logits_valid ctx \<and>
      snd (te_sync_kv_cache L ctx) =
        ctx\<lparr>llama_ctx := llama_kv_cache_clear L (llama_ctx ctx), kv_cache_dirty := False\<rparr>) \<and>
   map b_token (te_sync_batch ctx) = te_buffer ctx \<and>
   map b_pos (te_sync_batch ctx) = map int [0..<n_tokens ctx] \<and>
   map b_seq_id (te_sync_batch ctx) = replicate (n_tokens ctx) [0] \<and>
   map b_logits (te_sync_batch ctx) = map (\<lambda>i. i = n_tokens ctx - 1) [0..<n_tokens ctx]"
proof -
  have b: "map b_token (te_sync_batch ctx) = te_buffer ctx"
    "map b_pos (te_sync_batch ctx) = map int [0..<n_tokens ctx]"
    "map b_seq_id (te_sync_batch ctx) = replicate (n_tokens ctx) [0]"
    "map b_logits (te_sync_batch ctx) = map (\<lambda>i. i = n_tokens ctx - 1) [0..<n_tokens ctx]"
    by (simp_all add: te_sync_batch_def te_buffer_def cells_def o_def map_replicate_const)
  have s: "te_sync_batch (ctx\<lparr>llama_ctx := k\<rparr>) = te_sync_batch ctx" for k
    by (simp add: te_sync_batch_def)
  show ?thesis
    using b by (auto simp: te_sync_kv_cache_def s Let_def split: prod.splits)
qed

theorem te_sync_kv_cache_cases_witness:
  "\<not> kv_cache_dirty (te_init [] stub_model) \<and>
   te_sync_kv_cache stub_api (te_init [] stub_model) = (TE_OK, te_init [] stub_model) \<and>
   kv_cache_dirty editor_5 \<and> n_tokens editor_5 > 0 \<and>
   fst (llama_decode stub_api (llama_kv_cache_clear stub_api (llama_ctx editor_5))
          (te_sync_batch editor_5)) = 0 \<and>
   fst (te_sync_kv_cache stub_api editor_5) = TE_OK \<and>
   \<not> kv_cache_dirty (snd (te_sync_kv_cache stub_api editor_5)) \<and>
   logits_valid (snd (te_sync_kv_cache stub_api editor_5)) \<and>
   llama_ctx (snd (te_sync_kv_cache stub_api (editor_5\<lparr>llama_ctx := [9]\<rparr>))) = [5, 0, 0, 0] \<and>
   fst (llama_decode stub_api_full (llama_kv_cache_clear stub_api_full (llama_ctx editor_5))
          (te_sync_batch editor_5)) \<noteq> 0 \<and>
   fst (te_sync_kv_cache stub_api_full editor_5) = TE_ERROR_KV_CACHE_FULL \<and>
   kv_cache_dirty (snd (te_sync_kv_cache stub_api_full editor_5)) \<and>
   llama_ctx (snd (te_sync_kv_cache stub_api_full (editor_5\<lparr>llama_ctx := [9]\<rparr>))) = [] \<and>
   kv_cache_dirty editor_cleared \<and> n_tokens editor_cleared = 0 \<and>
   fst (te_sync_kv_cache stub_api editor_cleared) = TE_OK \<and>
   \<not> kv_cache_dirty (snd (te_sync_kv_cache stub_api editor_cleared)) \<and>
   \<not> logits_valid (snd (te_sync_kv_cache stub_api editor_cleared)) \<and>
   llama_ctx (snd (te_sync_kv_cache stub_api (editor_cleared\<lparr>llama_ctx := [9]\<rparr>))) = [] \<and>
   map b_token (te_sync_batch editor_5) = [5] \<and>
   map b_logits (te_sync_batch editor_5) = [True]"
  using te_sync_kv_cache_cases [of "te_init [] stub_model" stub_api]
        te_sync_kv_cache_cases [of editor_5 stub_api]
        te_sync_kv_cache_cases [of "editor_5\<lparr>llama_ctx := [9]\<rparr>" stub_api]
        te_sync_kv_cache_cases [of editor_5 stub_api_full]
        te_sync_kv_cache_cases [of "editor_5\<lparr>llama_ctx := [9]\<rparr>" stub_api_full]
        te_sync_kv_cache_cases [of editor_cleared stub_api]
        te_sync_kv_cache_cases [of "editor_cleared\<lparr>llama_ctx := [9]\<rparr>" stub_api]
  by (simp add: editor_5_simps editor_cleared_simps stub_api_def stub_api_full_def te_init_def
      te_sync_batch_def le32_def upt_conv_Cons)

section \<open>The edit log under each mutator\<close>


lemma te_trim_history_eq: "te_trim_history (length h) L h = drop (length h - L) h"
proof (induction h)
  case Nil
  then show ?case by simp
next
  case (Cons old rest)
  show ?case
  proof (cases "length (old # rest) > L")
    case True
    then have "Suc (length rest) - L = Suc (length rest - L)" by simp
    with True Cons show ?thesis by simp
  next
    case False
    then show ?thesis by simp
  qed
qed


lemma te_record_edit_fields [simp]:
  "tokens (te_record_edit ctx ty s d t n) = tokens ctx"
  "token_info (te_record_edit ctx ty s d t n) = token_info ctx"
  "n_tokens (te_record_edit ctx ty s d t n) = n_tokens ctx"
  "capacity (te_record_edit ctx ty s d t n) = capacity ctx"
  "history_limit (te_record_edit ctx ty s d t n) = history_limit ctx"
  "suppress_history (te_record_edit ctx ty s d t n) = suppress_history ctx"
  "readonly (te_record_edit ctx ty s d t n) = readonly ctx"
  "llama_model (te_record_edit ctx ty s d t n) = llama_model ctx"
  "llama_ctx (te_record_edit ctx ty s d t n) = llama_ctx ctx"
  "kv_cache_dirty (te_record_edit ctx ty s d t n) = kv_cache_dirty ctx"
  "logits_valid (te_record_edit ctx ty s d t n) = logits_valid ctx"
  by (simp_all add: te_record_edit_def Let_def)

lemma te_shift_fields [simp]:
  "tokens (te_shift ctx dst src n) = memmove (tokens ctx) dst src n"
  "token_info (te_shift ctx dst src n) = memmove (token_info ctx) dst src n"
  "n_tokens (te_shift ctx dst src n) = n_tokens ctx"
  "capacity (te_shift ctx dst src n) = capacity ctx"
  "history (te_shift ctx dst src n) = history ctx"
  "redo_stack (te_shift ctx dst src n) = redo_stack ctx"
  "history_limit (te_shift ctx dst src n) = history_limit ctx"
  "suppress_history (te_shift ctx dst src n) = suppress_history ctx"
  "readonly (te_shift ctx dst src n) = readonly ctx"
  "llama_model (te_shift ctx dst src n) = llama_model ctx"
  by (simp_all add: te_shift_def)

lemma te_store_fields [simp]:
  "tokens (te_store ctx p seq_id ts n) = memcpy (tokens ctx) p ts n"
  "token_info (te_store ctx p seq_id ts n) = te_stamp_info ctx (token_info ctx) p seq_id ts n"
  "n_tokens (te_store ctx p seq_id ts n) = n_tokens ctx"
  "capacity (te_store ctx p seq_id ts n) = capacity ctx"
  "history (te_store ctx p seq_id ts n) = history ctx"
  "redo_stack (te_store ctx p seq_id ts n) = redo_stack ctx"
  "history_limit (te_store ctx p seq_id ts n) = history_limit ctx"
  "suppress_history (te_store ctx p seq_id ts n) = suppress_history ctx"
  "readonly (te_store ctx p seq_id ts n) = readonly ctx"
  "llama_model (te_store ctx p seq_id ts n) = llama_model ctx"
  by (simp_all add: te_store_def)


lemma te_record_edit_log:
  "\<not> suppress_history ctx \<Longrightarrow>
   history (te_record_edit ctx ty s d t n) =
     te_logged (history_limit ctx) (history ctx) (te_make_edit_op ty s d t n)"
  "\<not> suppress_history ctx \<Longrightarrow> redo_stack (te_record_edit ctx ty s d t n) = []"
  using te_trim_history_eq [of "history ctx @ [te_make_edit_op ty s d t n]" "history_limit ctx"]
  by (simp_all add: te_record_edit_def Let_def te_logged_def)

lemma te_ensure_capacity_Some:
  "te_ensure_capacity ctx r = Some c1 \<Longrightarrow> c1 = ctx\<lparr>capacity := capacity c1\<rparr>"
  by (auto simp: te_ensure_capacity_def split: if_splits option.splits)

lemma te_set_token_log:
  assumes "\<not> suppress_history ctx" "te_reaches_log ctx (Set_token pos seq_id token)"
  shows "fst (te_set_token ctx pos seq_id token) = TE_OK \<and>
         history (snd (te_set_token ctx pos seq_id token)) =
           te_logged (history_limit ctx) (history ctx) (te_edit_of ctx (Set_token pos seq_id token)) \<and>
         redo_stack (snd (te_set_token ctx pos seq_id token)) = []"
  using assms 
  by (simp add: te_set_token_def Let_def te_record_edit_log)



lemma te_clamp_range_rebuild [simp]:
  "\<lparr>r_start = r_start (te_clamp_range ctx rg), r_end = r_end (te_clamp_range ctx rg),
    r_seq_id = r_seq_id rg\<rparr> = te_clamp_range ctx rg"
  by (simp add: te_clamp_range_def)

lemma te_delete_tokens_log:
  assumes "\<not> suppress_history ctx" "te_reaches_log ctx (Delete_tokens rg)"
  shows "fst (te_delete_tokens ctx rg) = TE_OK \<and>
         history (snd (te_delete_tokens ctx rg)) =
           te_logged (history_limit ctx) (history ctx) (te_edit_of ctx (Delete_tokens rg)) \<and>
         redo_stack (snd (te_delete_tokens ctx rg)) = []"
  using assms
  by (simp add: te_delete_tokens_def Let_def te_record_edit_log)

lemma te_clear_log:
  assumes "\<not> suppress_history ctx" "te_reaches_log ctx (Clear seq_id)"
  shows "fst (te_clear ctx seq_id) = TE_OK \<and>
         history (snd (te_clear ctx seq_id)) =
           te_logged (history_limit ctx) (history ctx) (te_edit_of ctx (Clear seq_id)) \<and>
         redo_stack (snd (te_clear ctx seq_id)) = []"
  using assms
  by (simp add: te_clear_def Let_def te_record_edit_log)

lemma te_ensure_capacity_fields:
  assumes "te_ensure_capacity ctx r = Some c1"
  shows "tokens c1 = tokens ctx" "token_info c1 = token_info ctx" "n_tokens c1 = n_tokens ctx"
    "history c1 = history ctx" "redo_stack c1 = redo_stack ctx"
    "history_limit c1 = history_limit ctx" "suppress_history c1 = suppress_history ctx"
    "readonly c1 = readonly ctx" "llama_model c1 = llama_model ctx"
  by (subst te_ensure_capacity_Some [OF assms], simp)+

lemma te_replace_tokens_log:
  assumes "\<not> suppress_history ctx" "te_reaches_log ctx (Replace_tokens rg toks n)"
    and "te_replace_tokens ctx rg toks n = Some (err, c')"
  shows "err = TE_OK \<and>
         history c' =
           te_logged (history_limit ctx) (history ctx) (te_edit_of ctx (Replace_tokens rg toks n)) \<and>
         redo_stack c' = []"
proof -
  let ?start = "r_start (te_clamp_range ctx rg)"
  let ?end = "r_end (te_clamp_range ctx rg)"
  let ?req = "n_tokens ctx - (if ?start < ?end then nat (?end - ?start) else 0) + n"
  have ro: "\<not> readonly ctx" and lt: "?start < ?end"
    using assms(2) by simp_all
  from ro assms(3) obtain c1 where c1: "te_ensure_capacity ctx ?req = Some c1"
    by (simp add: te_replace_tokens_def Let_def split: option.splits)
  note f = te_ensure_capacity_fields [OF c1]
  have pos: "0 < nat (?end - ?start)" using lt by simp
  show ?thesis
    using assms(1,3) ro lt pos c1 f
    by (auto simp: te_replace_tokens_def Let_def te_record_edit_log
        split: option.splits)
qed


lemma te_insert_tokens_log:
  assumes "\<not> suppress_history ctx" "te_reaches_log ctx (Insert_tokens pos seq_id toks n)"
    and "te_insert_tokens ctx pos seq_id toks n = Some (err, c')"
  shows "err = TE_OK \<and>
         history c' =
           te_logged (history_limit ctx) (history ctx) (te_edit_of ctx (Insert_tokens pos seq_id toks n)) \<and>
         redo_stack c' = []"
proof -
  from assms(2) obtain ts where ts: "toks = Some ts" by auto
  from assms(3) ts assms(2) obtain c1 where
    c1: "te_ensure_capacity ctx (n_tokens ctx + n) = Some c1"
    by (auto simp: te_insert_tokens_def split: option.splits if_splits)
  note f = te_ensure_capacity_fields [OF c1]
  show ?thesis
    using assms ts c1 f
    by (auto simp: te_insert_tokens_def Let_def te_record_edit_log)
qed







section \<open>Termination of the mutators\<close>








section \<open>Edit log accounting\<close>

lemma te_apply_log:
  assumes "\<not> suppress_history ctx" "te_reaches_log ctx call" "te_apply ctx call = Some (err, ctx')"
  shows "err = TE_OK \<and> redo_stack ctx' = [] \<and>
         history ctx' = te_logged (history_limit ctx) (history ctx) (te_edit_of ctx call)"
proof (cases call)
  case (Set_token pos seq_id token)
  with assms te_set_token_log [of ctx pos seq_id token] show ?thesis by auto
next
  case (Insert_tokens pos seq_id toks n)
  with assms te_insert_tokens_log [of ctx pos seq_id toks n err ctx'] show ?thesis by auto
next
  case (Delete_tokens rg)
  with assms te_delete_tokens_log [of ctx rg] show ?thesis by auto
next
  case (Replace_tokens rg toks n)
  with assms te_replace_tokens_log [of ctx rg toks n err ctx'] show ?thesis by auto
next
  case (Clear seq_id)
  with assms te_clear_log [of ctx seq_id] show ?thesis by auto
qed


section \<open>Concrete logs\<close>



lemmas te_eval_defs =
  te_insert_tokens_def te_delete_tokens_def te_replace_tokens_def te_set_token_def te_clear_def
  te_undo_def te_redo_def te_init_def te_ensure_capacity_def te_record_edit_def
  te_make_edit_op_def te_trim_history.simps te_clamp_range_def te_shift_def te_store_def
  te_stamp_info_def memcpy_def memmove_def cells_def TE_DEFAULT_CAPACITY_def
  TE_HISTORY_DEFAULT_LIMIT_def Let_def

lemma editor_5_log:
  "history editor_5 =
     [te_make_edit_op TE_OP_INSERT \<lparr>r_start = 0, r_end = 1, r_seq_id = 0\<rparr>
        \<lparr>r_start = 0, r_end = 1, r_seq_id = 0\<rparr> (Some [5]) 1]"
  "redo_stack editor_5 = []" "\<not> suppress_history editor_5" "\<not> readonly editor_5"
  "history_limit editor_5 = 100" "capacity editor_5 = 4096"
  by (simp_all add: editor_5_def te_eval_defs)









section \<open>History limit\<close>


lemma te_apply_keeps:
  assumes "te_apply ctx call = Some (err, ctx')"
  shows "history_limit ctx' = history_limit ctx \<and> suppress_history ctx' = suppress_history ctx"
proof (cases call)
  case (Set_token pos seq_id token)
  with assms show ?thesis by (auto simp: te_set_token_def Let_def split: if_splits)
next
  case (Insert_tokens pos seq_id toks n)
  show ?thesis
  proof (cases "te_ensure_capacity ctx (n_tokens ctx + n)")
    case None
    with assms Insert_tokens show ?thesis
      by (auto simp: te_insert_tokens_def split: option.splits if_splits)
  next
    case (Some c1)
    note f = te_ensure_capacity_fields [OF Some]
    from assms Insert_tokens Some f show ?thesis
      by (auto simp: te_insert_tokens_def Let_def split: option.splits if_splits)
  qed
next
  case (Delete_tokens rg)
  with assms show ?thesis by (auto simp: te_delete_tokens_def Let_def split: if_splits)
next
  case (Replace_tokens rg toks n)
  let ?start = "r_start (te_clamp_range ctx rg)"
  let ?end = "r_end (te_clamp_range ctx rg)"
  let ?req = "n_tokens ctx - (if ?start < ?end then nat (?end - ?start) else 0) + n"
  show ?thesis
  proof (cases "readonly ctx")
    case True
    with assms Replace_tokens show ?thesis by (simp add: te_replace_tokens_def)
  next
    case False
    with assms Replace_tokens obtain c1 where c1: "te_ensure_capacity ctx ?req = Some c1"
      by (simp add: te_replace_tokens_def Let_def split: option.splits)
    note f = te_ensure_capacity_fields [OF c1]
    from assms Replace_tokens False c1 f show ?thesis
      by (auto simp: te_replace_tokens_def Let_def split: option.splits if_splits)
  qed
next
  case (Clear seq_id)
  with assms show ?thesis by (auto simp: te_clear_def Let_def split: if_splits)
qed

lemma drop_last_twice:
  "drop (length (drop (length a - L) a @ b) - L) (drop (length a - L) a @ b) =
   drop (length (a @ b) - L) (a @ b)"
proof (cases "length a \<le> L")
  case True
  then show ?thesis by simp
next
  case False
  then have "length a - L + length b = length a + length b - L" by simp
  with False show ?thesis by (simp add: add.commute)
qed

lemma te_run_recorded_history:
  assumes "\<not> suppress_history ctx" "0 < history_limit ctx"
    and "te_run_recorded ctx calls = Some (ctx', ops)"
    and "calls = [] \<longrightarrow> length (history ctx) \<le> history_limit ctx"
  shows "history ctx' =
           drop (length (history ctx @ ops) - history_limit ctx) (history ctx @ ops) \<and>
         length ops = length calls \<and> history_limit ctx' = history_limit ctx"
  using assms
proof (induction calls arbitrary: ctx ops)
  case Nil
  then show ?case by simp
next
  case (Cons x xs)
  from Cons.prems(3) obtain c1 ops' where
    r: "te_reaches_log ctx x" and a: "te_apply ctx x = Some (TE_OK, c1)"
    and rest: "te_run_recorded c1 xs = Some (ctx', ops')" and ops: "ops = te_edit_of ctx x # ops'"
    by (auto split: if_splits option.splits)
  note k = te_apply_keeps [OF a]
  from te_apply_log [OF Cons.prems(1) r a] Cons.prems(2)
  have h1: "history c1 =
      drop (length (history ctx @ [te_edit_of ctx x]) - history_limit ctx)
        (history ctx @ [te_edit_of ctx x])"
    by (simp add: te_logged_def)
  from h1 Cons.prems(2) have "length (history c1) \<le> history_limit c1"
    using k by simp
  with Cons.IH [OF _ _ rest] k Cons.prems(1,2)
  have ih: "history ctx' = drop (length (history c1 @ ops') - history_limit ctx) (history c1 @ ops')"
    "length ops' = length xs" "history_limit ctx' = history_limit ctx"
    by simp_all
  have "history ctx' =
      drop (length ((history ctx @ [te_edit_of ctx x]) @ ops') - history_limit ctx)
        ((history ctx @ [te_edit_of ctx x]) @ ops')"
    unfolding ih(1) h1 by (rule drop_last_twice)
  with ih ops show ?case by simp
qed

text \<open>
  C9. Take an editor with a positive \<open>history_limit\<close> \<open>L\<close> and recording enabled, and any
  run of \<open>M \<ge> L\<close> mutator calls (in particular \<open>M > L\<close>) each of which returns \<open>TE_OK\<close> and
  is recorded. Afterwards the history holds exactly \<open>L\<close> entries, and they are the entries
  of the last \<open>L\<close> calls of the run, in order: the trimming removed only from the oldest
  end.
\<close>

theorem te_history_limit_keeps_latest:
  assumes "history_limit ctx = L" "0 < L" "\<not> suppress_history ctx"
    and "te_run_recorded ctx calls = Some (ctx', ops)" "L \<le> length calls"
  shows "length (history ctx') = L \<and> history ctx' = drop (length ops - L) ops \<and>
         length ops = length calls"
proof -
  from assms(2,5) have "calls \<noteq> []" by auto
  with te_run_recorded_history [OF assms(3) _ assms(4)] assms(1,2)
  have h: "history ctx' = drop (length (history ctx @ ops) - L) (history ctx @ ops)"
    and n: "length ops = length calls" by simp_all
  from n assms(5) have "length (history ctx @ ops) - L = length (history ctx) + (length ops - L)"
    by simp
  with h have "history ctx' = drop (length ops - L) ops" by simp
  with n assms(5) show ?thesis by simp
qed


lemma three_set_tokens_run:
  "te_run_recorded editor_5_limit_2 three_set_tokens =
     Some (fst (the (te_run_recorded editor_5_limit_2 three_set_tokens)),
           [set_token_op 5, set_token_op 7, set_token_op 8])"
  by (simp add: editor_5_limit_2_def three_set_tokens_def set_token_op_def editor_5_def
      te_set_history_limit_def te_eval_defs)

theorem te_history_limit_keeps_latest_witness:
  "history_limit editor_5_limit_2 = 2 \<and> (0 :: nat) < 2 \<and> \<not> suppress_history editor_5_limit_2 \<and>
   te_run_recorded editor_5_limit_2 three_set_tokens =
     Some (fst (the (te_run_recorded editor_5_limit_2 three_set_tokens)),
           [set_token_op 5, set_token_op 7, set_token_op 8]) \<and>
   2 \<le> length three_set_tokens \<and>
   length (history editor_5_limit_2) = 1 \<and>
   history (fst (the (te_run_recorded editor_5_limit_2 three_set_tokens))) =
     [set_token_op 7, set_token_op 8]"
proof -
  have l: "history_limit editor_5_limit_2 = 2" "\<not> suppress_history editor_5_limit_2"
    "length (history editor_5_limit_2) = 1"
    by (simp_all add: editor_5_limit_2_def te_set_history_limit_def editor_5_log)
  have n: "2 \<le> length three_set_tokens" by (simp add: three_set_tokens_def)
  from te_history_limit_keeps_latest [OF l(1) _ l(2) three_set_tokens_run n] l n
    three_set_tokens_run
  show ?thesis by simp
qed

section \<open>Undo and redo of Replace entries\<close>

text \<open>
  C1 at two concrete editors. On the buffer \<open>[5]\<close>, \<open>te_set_token(0, 9)\<close> gives \<open>[9]\<close> and
  \<open>te_undo\<close> gives back \<open>[5]\<close>, but \<open>te_redo\<close> then leaves \<open>[5]\<close> instead of the post-op
  buffer \<open>[9]\<close>: the Replace entry carries only the old tokens, and \<open>te_redo\<close> replays
  them. On the buffer \<open>[1, 2, 3]\<close>, \<open>te_replace_tokens\<close> of \<open>[0, 1)\<close> by \<open>[7, 8]\<close> gives
  \<open>[7, 8, 2, 3]\<close>, and \<open>te_undo\<close> then gives \<open>[1, 8, 2, 3]\<close> instead of the pre-op buffer:
  the entry's range is the old range \<open>[0, 1)\<close>, not the range the new tokens occupy.
\<close>

theorem te_undo_redo_replace_failing_input:
  "te_buffer editor_5 = [5] \<and>
   fst (te_set_token editor_5 0 0 9) = TE_OK \<and> te_buffer editor_9 = [9] \<and>
   fst (the (te_undo editor_9)) = TE_OK \<and> te_buffer editor_9_undone = [5] \<and>
   fst (the (te_redo editor_9_undone)) = TE_OK \<and> te_buffer editor_9_redone = [5] \<and>
   te_buffer editor_9_redone \<noteq> te_buffer editor_9 \<and>
   te_buffer editor_123 = [1, 2, 3] \<and>
   fst (the (te_replace_tokens editor_123 \<lparr>r_start = 0, r_end = 1, r_seq_id = 0\<rparr>
               (Some [7, 8]) 2)) = TE_OK \<and>
   te_buffer editor_7823 = [7, 8, 2, 3] \<and>
   fst (the (te_undo editor_7823)) = TE_OK \<and>
   te_buffer editor_7823_undone = [1, 8, 2, 3] \<and>
   te_buffer editor_7823_undone \<noteq> te_buffer editor_123"
  by (simp add: te_buffer_def editor_9_def editor_9_undone_def editor_9_redone_def
      editor_123_def editor_7823_def editor_7823_undone_def editor_5_def te_eval_defs upt_conv_Cons)

section \<open>Token metadata\<close>










lemma te_ids_ok_flags [simp]:
  "te_ids_ok (ctx\<lparr>suppress_history := s\<rparr>) = te_ids_ok ctx"
  "te_ids_ok (ctx\<lparr>history := h\<rparr>) = te_ids_ok ctx"
  "te_ids_ok (ctx\<lparr>redo_stack := r\<rparr>) = te_ids_ok ctx"
  "te_ids_ok (ctx\<lparr>kv_cache_dirty := d\<rparr>) = te_ids_ok ctx"
  "te_ids_ok (ctx\<lparr>logits_valid := v\<rparr>) = te_ids_ok ctx"
  by (simp_all add: te_ids_ok_def)

lemma te_replace_in_buffer_flags [simp]:
  "te_replace_in_buffer (ctx\<lparr>history := h, suppress_history := s\<rparr>) rg toks n =
     te_replace_in_buffer ctx rg toks n"
  "te_replace_in_buffer (ctx\<lparr>redo_stack := r, suppress_history := s\<rparr>) rg toks n =
     te_replace_in_buffer ctx rg toks n"
  by (simp_all add: te_replace_in_buffer_def te_clamp_range_def)















section \<open>Recursive context environment: spawning\<close>

lemma rllm_deref_write:
  "rllm_deref (rllm_write env p node) q =
     (if q = p \<and> p < length (env_heap env) then Some node else rllm_deref env q)"
  by (simp add: rllm_deref_def rllm_write_def)

lemma rllm_write_fields [simp]:
  "env_config (rllm_write env p node) = env_config env"
  "env_contexts (rllm_write env p node) = env_contexts env"
  "env_roots (rllm_write env p node) = env_roots env"
  "env_events (rllm_write env p node) = env_events env"
  "env_peak_depth (rllm_write env p node) = env_peak_depth env"
  "env_on_context_create (rllm_write env p node) = env_on_context_create env"
  "env_on_recursion (rllm_write env p node) = env_on_recursion env"
  "env_model (rllm_write env p node) = env_model env"
  "length (env_heap (rllm_write env p node)) = length (env_heap env)"
  by (simp_all add: rllm_write_def)

lemma rllm_fire_fields [simp]:
  "env_config (rllm_fire b ev env) = env_config env"
  "env_contexts (rllm_fire b ev env) = env_contexts env"
  "env_heap (rllm_fire b ev env) = env_heap env"
  "rllm_deref (rllm_fire b ev env) q = rllm_deref env q"
  by (simp_all add: rllm_fire_def rllm_deref_def)

lemma rllm_deref_bound: "rllm_deref env p = Some node \<Longrightarrow> p < length (env_heap env)"
  by (simp add: rllm_deref_def split: if_splits)

lemma rllm_alloc_context_Some:
  assumes "rllm_alloc_context env = (Some ctx, env1)"
  shows "ctx = length (env_heap env)" "env_config env1 = env_config env"
    "length (env_heap env1) = Suc (length (env_heap env))"
    "rllm_deref env1 ctx \<noteq> None"
    "\<And>q. q < length (env_heap env) \<Longrightarrow> rllm_deref env1 q = rllm_deref env q"
    "env_model env1 = env_model env"
  using assms
  by (auto simp: rllm_alloc_context_def Let_def rllm_deref_def nth_append split: if_splits)

lemma rllm_spawned_fields [simp]:
  "env_config (rllm_spawned env p c) = env_config env"
  "env_contexts (rllm_spawned env p c) = env_contexts env"
  "env_heap (rllm_spawned env p c) = env_heap env"
  "rllm_deref (rllm_spawned env p c) q = rllm_deref env q"
  by (simp_all add: rllm_spawned_def Let_def rllm_deref_def)

lemma rllm_add_child_depth:
  assumes "rllm_add_child env parent child = Some env2" "rllm_deref env parent = Some pn"
    "parent \<noteq> child"
  shows "rllm_deref env2 child \<noteq> None"
    "rc_depth (the (rllm_deref env2 child)) = rc_depth pn + 1"
    "env_config env2 = env_config env"
    "rc_token_editor (the (rllm_deref env2 child)) = rc_token_editor (the (rllm_deref env child))"
  using assms
  by (auto simp: rllm_add_child_def Let_def rllm_deref_write split: option.splits if_splits
      dest: rllm_deref_bound)

text \<open>The shape of a successful spawn.\<close>

lemma rllm_spawn_child_Some:
  assumes "rllm_spawn_child L env parent config = Some (Some ctx, env')"
  obtains pn env1 k te env2 where
    "rllm_deref env parent = Some pn"
    "\<not> ec_max_depth (env_config env) \<le> rc_depth pn + 1"
    "rllm_alloc_context env = (Some ctx, env1)"
    "llama_new_context_with_model L (rllm_child_cparams config (rc_config pn)) = Some k"
    "rllm_share L (cfg_share_mode config) (rc_token_editor pn) (te_init k (env_model env1)) =
       Some te"
    "rllm_add_child
       (rllm_write env1 ctx
          ((the (rllm_deref env1 ctx))
             \<lparr>rc_relation := RLLM_REL_CHILD, rc_config := config,
              rc_token_editor := Some te\<rparr>)) parent ctx = Some env2"
    "env' = rllm_spawned env2 parent ctx"
proof -
  from assms obtain pn where pn: "rllm_deref env parent = Some pn"
    by (cases "rllm_deref env parent") (simp_all add: rllm_spawn_child_def)
  from assms pn have d: "\<not> ec_max_depth (env_config env) \<le> rc_depth pn + 1"
    by (cases "ec_max_depth (env_config env) \<le> rc_depth pn + 1")
      (simp_all add: rllm_spawn_child_def)
  obtain r env1 where al: "rllm_alloc_context env = (r, env1)"
    by (cases "rllm_alloc_context env") auto
  from assms pn d al obtain c where r: "r = Some c"
    by (cases r) (simp_all add: rllm_spawn_child_def)
  let ?cp = "rllm_child_cparams config (rc_config pn)"
  from assms pn d al r obtain k where k: "llama_new_context_with_model L ?cp = Some k"
    by (cases "llama_new_context_with_model L ?cp")
      (simp_all add: rllm_spawn_child_def Let_def)
  let ?sh = "rllm_share L (cfg_share_mode config) (rc_token_editor pn)
               (te_init k (env_model env1))"
  from assms pn d al r k obtain te where te: "?sh = Some te"
    by (cases ?sh) (simp_all add: rllm_spawn_child_def Let_def)
  let ?ac = "rllm_add_child
       (rllm_write env1 c
          ((the (rllm_deref env1 c))
             \<lparr>rc_relation := RLLM_REL_CHILD, rc_config := config,
              rc_token_editor := Some te\<rparr>)) parent c"
  from assms pn d al r k te obtain env2 where ac: "?ac = Some env2"
    by (cases ?ac) (simp_all add: rllm_spawn_child_def Let_def)
  from assms pn d al r k te ac have eq: "ctx = c" "env' = rllm_spawned env2 parent c"
    by (auto simp: rllm_spawn_child_def Let_def)
  show ?thesis
    by (rule that [OF pn d, of env1 k te env2]) (use al r k te ac eq in auto)
qed

lemma rllm_spawn_child_depth:
  assumes "rllm_spawn_child L env parent config = Some (Some ctx, env')"
  shows "rllm_deref env' ctx \<noteq> None \<and>
         rc_depth (the (rllm_deref env' ctx)) < ec_max_depth (env_config env') \<and>
         ec_max_depth (env_config env') = ec_max_depth (env_config env) \<and>
         (\<exists>pn. rllm_deref env parent = Some pn \<and>
               rc_depth (the (rllm_deref env' ctx)) = rc_depth pn + 1)"
proof -
  from assms obtain pn env1 k te env2 where
    pn: "rllm_deref env parent = Some pn"
    and d: "\<not> ec_max_depth (env_config env) \<le> rc_depth pn + 1"
    and al: "rllm_alloc_context env = (Some ctx, env1)"
    and ac: "rllm_add_child
       (rllm_write env1 ctx
          ((the (rllm_deref env1 ctx))
             \<lparr>rc_relation := RLLM_REL_CHILD, rc_config := config,
              rc_token_editor := Some te\<rparr>)) parent ctx = Some env2"
    and e: "env' = rllm_spawned env2 parent ctx"
    by (rule rllm_spawn_child_Some)
  note a = rllm_alloc_context_Some [OF al]
  note pb = rllm_deref_bound [OF pn]
  have ne: "parent \<noteq> ctx" using a(1) pb by simp
  have pn1: "rllm_deref (rllm_write env1 ctx
          ((the (rllm_deref env1 ctx))
             \<lparr>rc_relation := RLLM_REL_CHILD, rc_config := config,
              rc_token_editor := Some te\<rparr>)) parent = Some pn"
    using ne a(5) [OF pb] pn by (simp add: rllm_deref_write)
  note k = rllm_add_child_depth [OF ac pn1 ne]
  show ?thesis
    using k d pn a(2) by (simp add: e not_le)
qed

text \<open>
  C7. When \<open>parent->depth + 1 >= max_depth\<close>, \<open>rllm_spawn_child\<close> returns \<open>NULL\<close> and the
  environment is left exactly as it was: the pool, the counters and the trace of fired
  callbacks are unchanged. A spawn that returns a context gives it a depth below
  \<open>max_depth\<close>, and does not change \<open>max_depth\<close>.
\<close>

theorem rllm_spawn_child_depth_limit:
  "(rllm_deref env parent = Some pn \<and> rc_depth pn + 1 \<ge> ec_max_depth (env_config env) \<longrightarrow>
      rllm_spawn_child L env parent config = Some (None, env)) \<and>
   (rllm_spawn_child L env parent config = Some (Some ctx, env') \<longrightarrow>
      rllm_deref env' ctx \<noteq> None \<and>
      rc_depth (the (rllm_deref env' ctx)) < ec_max_depth (env_config env') \<and>
      \<not> rc_depth (the (rllm_deref env' ctx)) \<ge> ec_max_depth (env_config env') \<and>
      ec_max_depth (env_config env') = ec_max_depth (env_config env))"
proof -
  have a: "rllm_spawn_child L env parent config = Some (None, env)"
    if "rllm_deref env parent = Some pn" "rc_depth pn + 1 \<ge> ec_max_depth (env_config env)"
    using that by (simp add: rllm_spawn_child_def)
  have b: "rllm_deref env' ctx \<noteq> None \<and>
      rc_depth (the (rllm_deref env' ctx)) < ec_max_depth (env_config env') \<and>
      \<not> rc_depth (the (rllm_deref env' ctx)) \<ge> ec_max_depth (env_config env') \<and>
      ec_max_depth (env_config env') = ec_max_depth (env_config env)"
    if s: "rllm_spawn_child L env parent config = Some (Some ctx, env')"
  proof -
    from s obtain pn where pn: "rllm_deref env parent = Some pn"
      by (auto simp: rllm_spawn_child_def split: option.splits)
    from s pn have d: "\<not> ec_max_depth (env_config env) \<le> rc_depth pn + 1"
      by (auto simp: rllm_spawn_child_def split: if_splits)
    from rllm_spawn_child_depth [OF s] pn d show ?thesis
      by (auto simp: not_le)
  qed
  show ?thesis using a b by blast
qed

section \<open>Concrete environments\<close>

lemmas rllm_eval_defs =
  rllm_spawn_child_def rllm_create_root_def rllm_alloc_context_def rllm_add_child_def
  rllm_remove_child_def rllm_remove_from_pool_def rllm_spawned_def rllm_share_def
  rllm_child_cparams_def rllm_fire_def rllm_write_def rllm_free_def rllm_deref_def
  rllm_init_def rllm_destroy_def demo_env_config_def demo_ctx_config_def stub_api_def
  word_le_nat_alt word_less_nat_alt Let_def

lemma rllm_fuel_numeral:
  "rllm_free_context_internal (numeral k) env ctx =
     rllm_free_context_internal (Suc (pred_numeral k)) env ctx"
  "rllm_count_descendants (numeral k) env ctx =
     rllm_count_descendants (Suc (pred_numeral k)) env ctx"
  by (simp_all only: numeral_eq_Suc)

lemma demo_env1_eval:
  "rllm_create_root stub_api demo_env0 (demo_ctx_config RLLM_SHARE_NONE) = (Some 0, demo_env1)"
  "env_contexts demo_env1 = [0]" "env_roots demo_env1 = [0]"
  "env_events demo_env1 = [On_context_create 0]"
  "map_option rc_depth (rllm_deref demo_env1 0) = Some 0"
  unfolding demo_env1_def
  by (simp_all add: demo_env0_def rllm_eval_defs prod_eq_iff)


lemma demo_env2_eval:
  "rllm_spawn_child stub_api demo_env1 0 (demo_ctx_config RLLM_SHARE_NONE) =
     Some (Some 1, demo_env2)"
  "env_contexts demo_env2 = [0, 1]"
  "map_option rc_depth (rllm_deref demo_env2 1) = Some 1"
  "map_option rc_children (rllm_deref demo_env2 0) = Some [1]"
  "map_option rc_parent (rllm_deref demo_env2 1) = Some (Some 0)"
  "env_events demo_env2 = [On_context_create 0, On_context_create 1, On_recursion 0 1]"
  unfolding demo_env2_def
  by (simp_all add: demo_env1_def demo_env0_def rllm_eval_defs prod_eq_iff)

lemma demo_env3_eval:
  "rllm_spawn_child stub_api demo_env2 1 (demo_ctx_config RLLM_SHARE_NONE) =
     Some (Some 2, demo_env3)"
  "env_contexts demo_env3 = [0, 1, 2]"
  "map_option rc_depth (rllm_deref demo_env3 2) = Some 2"
  "ec_max_depth (env_config demo_env3) = 3"
  unfolding demo_env3_def
  by (simp_all add: demo_env2_def demo_env1_def demo_env0_def rllm_eval_defs prod_eq_iff)

theorem rllm_spawn_child_depth_limit_witness:
  "rllm_deref demo_env3 2 \<noteq> None \<and>
   rc_depth (the (rllm_deref demo_env3 2)) + 1 \<ge> ec_max_depth (env_config demo_env3) \<and>
   rllm_spawn_child stub_api demo_env3 2 (demo_ctx_config RLLM_SHARE_NONE) =
     Some (None, demo_env3) \<and>
   env_contexts demo_env3 = [0, 1, 2] \<and>
   rllm_spawn_child stub_api demo_env1 0 (demo_ctx_config RLLM_SHARE_NONE) =
     Some (Some 1, demo_env2) \<and>
   rc_depth (the (rllm_deref demo_env2 1)) < ec_max_depth (env_config demo_env2)"
proof -
  from demo_env3_eval(3) obtain n3 where n3: "rllm_deref demo_env3 2 = Some n3" "rc_depth n3 = 2"
    by auto
  have d: "rc_depth n3 + 1 \<ge> ec_max_depth (env_config demo_env3)"
    by (simp add: n3 demo_env3_eval(4))
  from rllm_spawn_child_depth_limit
    [where env = demo_env3 and parent = 2 and pn = n3 and L = stub_api
       and config = "demo_ctx_config RLLM_SHARE_NONE", THEN conjunct1] n3 d
  have a: "rllm_spawn_child stub_api demo_env3 2 (demo_ctx_config RLLM_SHARE_NONE) =
     Some (None, demo_env3)" by simp
  from rllm_spawn_child_depth_limit
    [where env = demo_env1 and parent = 0 and L = stub_api and ctx = 1 and env' = demo_env2
       and config = "demo_ctx_config RLLM_SHARE_NONE", THEN conjunct2] demo_env2_eval(1)
  have b: "rc_depth (the (rllm_deref demo_env2 1)) < ec_max_depth (env_config demo_env2)"
    by blast
  show ?thesis using n3 d a b demo_env3_eval(2) demo_env2_eval(1) by simp
qed

section \<open>Destroying a context with children\<close>

text \<open>
  C4, at a root with one child. \<open>rllm_destroy(env, root)\<close> returns \<open>RLLM_OK\<close>;
  \<open>rllm_remove_from_pool\<close> is called for the root only, and \<open>rllm_free_context_internal\<close>
  frees the child without taking it out of the pool: the pool still holds the pointer to
  the freed child, and \<open>n_contexts\<close> has dropped by one, not by two.
\<close>

theorem rllm_destroy_leaves_descendants_in_pool:
  "env_contexts demo_env2 = [0, 1] \<and>
   rllm_count_descendants 2 demo_env2 0 = Some 1 \<and>
   rllm_destroy 2 demo_env2 0 \<noteq> None \<and>
   fst (the (rllm_destroy 2 demo_env2 0)) = RLLM_OK \<and>
   env_contexts (snd (the (rllm_destroy 2 demo_env2 0))) = [1] \<and>
   1 \<in> set (env_contexts (snd (the (rllm_destroy 2 demo_env2 0)))) \<and>
   rllm_deref (snd (the (rllm_destroy 2 demo_env2 0))) 1 = None \<and>
   length (env_contexts (snd (the (rllm_destroy 2 demo_env2 0)))) =
     length (env_contexts demo_env2) - 1 \<and>
   length (env_contexts (snd (the (rllm_destroy 2 demo_env2 0)))) \<noteq>
     length (env_contexts demo_env2) - (1 + 1)"
  by (simp add: demo_env2_def demo_env1_def demo_env0_def rllm_eval_defs rllm_fuel_numeral)

section \<open>Share modes\<close>

















end
